theory Spec2Isabelle
  imports Complex_Main "HOL-Library.Word" "HOL-Library.Sublist"
begin

unbundle bit_operations_syntax

section \<open>The integration harness of the nano-banana MCP server\<close>

text \<open>
  A shallow embedding of \<^verbatim>\<open>src/test-integration.ts\<close>: the class
  \<^verbatim>\<open>IntegrationTester\<close> with its five checks, \<^verbatim>\<open>addResult\<close>,
  \<^verbatim>\<open>printResults\<close> and \<^verbatim>\<open>runAllTests\<close>.

  The harness is all effects, so the embedding passes two things explicitly: the
  \<^verbatim>\<open>results\<close> array of the tester and the files under \<^verbatim>\<open>process.cwd()\<close>.
  Everything the harness only consumes (faults of the file system, the build subprocess,
  the JSON functions of the runtime) is a field of a \<open>world\<close> record, so a theorem
  about every world is a theorem about every environment the script can meet.
  Console output is not modelled: no property below reads it.
\<close>

subsection \<open>Strings\<close>

text \<open>
  A JavaScript string is a sequence of UTF-16 code units. The string literals of the source
  are ASCII, except the two status glyphs, the code units \<^verbatim>\<open>\u2705\<close> and \<^verbatim>\<open>\u274c\<close>.
\<close>

type_synonym jsstring = "16 word list"

definition ascii :: "string \<Rightarrow> jsstring" where
  "ascii s = map of_char s"

definition CHECK_MARK :: jsstring where
  "CHECK_MARK = [0x2705]"

definition CROSS_MARK :: jsstring where
  "CROSS_MARK = [0x274C]"

text \<open>\<^verbatim>\<open>s.includes(t)\<close>: \<open>t\<close> occurs in \<open>s\<close> as a contiguous run of code units.\<close>

fun js_includes :: "'a list \<Rightarrow> 'a list \<Rightarrow> bool" where
  "js_includes [] t = (t = [])"
| "js_includes (c # cs) t = (prefix t (c # cs) \<or> js_includes cs t)"

text \<open>
  \<^verbatim>\<open>fs.writeFile\<close> encodes a string as UTF-8 and \<^verbatim>\<open>fs.readFile(p, 'utf-8')\<close>
  decodes it. A surrogate pair survives; a surrogate without its partner is written as the
  bytes of \<^verbatim>\<open>U+FFFD\<close> and reads back as that character.
\<close>

definition is_high_surrogate :: "16 word \<Rightarrow> bool" where
  "is_high_surrogate c = (0xD800 \<le> c \<and> c \<le> 0xDBFF)"

definition is_low_surrogate :: "16 word \<Rightarrow> bool" where
  "is_low_surrogate c = (0xDC00 \<le> c \<and> c \<le> 0xDFFF)"

fun utf8_roundtrip :: "jsstring \<Rightarrow> jsstring" where
  "utf8_roundtrip [] = []"
| "utf8_roundtrip (c # cs) =
     (if is_high_surrogate c then
        (case cs of
           [] \<Rightarrow> [0xFFFD]
         | d # ds \<Rightarrow>
             if is_low_surrogate d then c # d # utf8_roundtrip ds
             else 0xFFFD # utf8_roundtrip cs)
      else if is_low_surrogate c then 0xFFFD # utf8_roundtrip cs
      else c # utf8_roundtrip cs)"

subsection \<open>Thrown values\<close>

text \<open>
  What a \<^verbatim>\<open>catch (error)\<close> of the source can receive: a system error of
  \<^verbatim>\<open>fs\<close> or \<^verbatim>\<open>child_process\<close> (an \<^verbatim>\<open>Error\<close>), the
  \<^verbatim>\<open>SyntaxError\<close> of \<^verbatim>\<open>JSON.parse\<close>, the \<^verbatim>\<open>TypeError\<close> of a
  property read on \<^verbatim>\<open>undefined\<close> or \<^verbatim>\<open>null\<close>. Each carries its message.
\<close>

datatype js_error = Error jsstring | SyntaxError jsstring | TypeError jsstring

fun error_name :: "js_error \<Rightarrow> jsstring" where
  "error_name (Error m) = ascii ''Error''"
| "error_name (SyntaxError m) = ascii ''SyntaxError''"
| "error_name (TypeError m) = ascii ''TypeError''"

fun error_message :: "js_error \<Rightarrow> jsstring" where
  "error_message (Error m) = m"
| "error_message (SyntaxError m) = m"
| "error_message (TypeError m) = m"

text \<open>
  The template literals \<^verbatim>\<open>`... ${error}`\<close> convert the caught value with
  \<^verbatim>\<open>Error.prototype.toString\<close>: the name alone when the message is empty,
  \<^verbatim>\<open>name + ": " + message\<close> otherwise.
\<close>

definition error_toString :: "js_error \<Rightarrow> jsstring" where
  "error_toString e =
     (if error_message e = [] then error_name e
      else error_name e @ ascii '': '' @ error_message e)"

subsection \<open>JSON values and property reads\<close>

text \<open>
  The value \<^verbatim>\<open>JSON.parse\<close> returns. A number is the exact value of its (finite)
  double; the harness only tests numbers for truthiness. An object is the list of its own
  properties. \<^verbatim>\<open>undefined\<close> is \<open>None\<close> of \<open>json option\<close>.
\<close>

datatype json =
    JNull
  | JBool bool
  | JNumber rat
  | JString jsstring
  | JArray "json list"
  | JObject "(jsstring \<times> json) list"

text \<open>
  \<^verbatim>\<open>v[k]\<close> and \<^verbatim>\<open>v.k\<close>: a \<^verbatim>\<open>TypeError\<close> on \<^verbatim>\<open>undefined\<close> and
  \<^verbatim>\<open>null\<close> (the message is V8's), the own property of an object, and
  \<^verbatim>\<open>undefined\<close> on the other values. The keys the harness reads
  (\<^verbatim>\<open>dependencies\<close>, the four package names, \<^verbatim>\<open>geminiApiKey\<close>) are neither
  array indices nor names on the built-in prototypes, which this function leaves out.
\<close>

fun get_prop :: "json option \<Rightarrow> jsstring \<Rightarrow> js_error + json option" where
  "get_prop None k =
     Inl (TypeError (ascii ''Cannot read properties of undefined (reading '' @
                     [0x27] @ k @ [0x27] @ ascii '')''))"
| "get_prop (Some JNull) k =
     Inl (TypeError (ascii ''Cannot read properties of null (reading '' @
                     [0x27] @ k @ [0x27] @ ascii '')''))"
| "get_prop (Some (JObject kvs)) k = Inr (map_of kvs k)"
| "get_prop (Some v) k = Inr None"

text \<open>The condition of an \<^verbatim>\<open>if\<close>: \<^verbatim>\<open>ToBoolean\<close>.\<close>

fun truthy :: "json option \<Rightarrow> bool" where
  "truthy None = False"
| "truthy (Some JNull) = False"
| "truthy (Some (JBool b)) = b"
| "truthy (Some (JNumber q)) = (q \<noteq> 0)"
| "truthy (Some (JString s)) = (s \<noteq> [])"
| "truthy (Some (JArray vs)) = True"
| "truthy (Some (JObject kvs)) = True"

subsection \<open>The environment\<close>

text \<open>
  Paths are relative to \<^verbatim>\<open>process.cwd()\<close>: \<^verbatim>\<open>path.join(process.cwd(), p)\<close> is
  the key \<open>p\<close>, and \<^verbatim>\<open>path.join(process.cwd(), 'src', 'index.ts')\<close> is the key
  \<^verbatim>\<open>src/index.ts\<close>. A path holds a file with its text, a directory, or nothing.
\<close>

datatype node = File jsstring | Dir

type_synonym disk = "jsstring \<rightharpoonup> node"

datatype fs_op = Access | ReadFile | WriteFile | Unlink

text \<open>
  How \<^verbatim>\<open>spawn('npm', ['run', 'build'])\<close> ends. \<^verbatim>\<open>spawn\<close> throws synchronously
  (inside the executor of the promise, which rejects it), or the child emits
  \<^verbatim>\<open>'error'\<close> (the command cannot be started: no listener is registered for it, and
  Node raises an unhandled \<^verbatim>\<open>'error'\<close> event as an uncaught exception), or it emits
  \<^verbatim>\<open>'close'\<close> with the exit code (\<^verbatim>\<open>null\<close>, here \<open>None\<close>, when a signal
  ended the child) after the chunks of stdout and stderr have arrived, or it never ends.
\<close>

datatype spawn_outcome =
    SpawnThrows js_error
  | ErrorEvent js_error
  | Close "int option" "jsstring list" "jsstring list"
  | NeverCloses

text \<open>
  \<^descr> \<open>disk0\<close> the files when the script starts;
  \<^descr> \<open>io_fault\<close> a fault the system raises for an operation on a path whatever the path
    holds (permissions, an I/O error), with its message;
  \<^descr> \<open>npm_run_build\<close> the build subprocess: from the files it finds, how it ends and the
    files it leaves;
  \<^descr> \<open>JSON_parse\<close> the runtime's \<^verbatim>\<open>JSON.parse\<close>: the value, or the message of the
    \<^verbatim>\<open>SyntaxError\<close>;
  \<^descr> \<open>JSON_stringify\<close> the runtime's \<^verbatim>\<open>JSON.stringify(v, null, 2)\<close>.
\<close>

record world =
  disk0 :: disk
  io_fault :: "fs_op \<Rightarrow> jsstring \<Rightarrow> jsstring option"
  npm_run_build :: "disk \<Rightarrow> spawn_outcome \<times> disk"
  JSON_parse :: "jsstring \<Rightarrow> jsstring + json"
  JSON_stringify :: "json \<Rightarrow> jsstring"

definition system_error :: "string \<Rightarrow> string \<Rightarrow> jsstring \<Rightarrow> js_error" where
  "system_error what syscall p =
     Error (ascii what @ ascii '', '' @ ascii syscall @ ascii '' '' @ [0x27] @ p @ [0x27])"

text \<open>\<^verbatim>\<open>fs.access(p)\<close>: \<open>None\<close> when it resolves, the thrown value otherwise.\<close>

definition fs_access :: "world \<Rightarrow> disk \<Rightarrow> jsstring \<Rightarrow> js_error option" where
  "fs_access w d p =
     (case io_fault w Access p of
        Some m \<Rightarrow> Some (Error m)
      | None \<Rightarrow>
          (case d p of
             None \<Rightarrow> Some (system_error ''ENOENT: no such file or directory'' ''access'' p)
           | Some n \<Rightarrow> None))"

text \<open>\<^verbatim>\<open>fs.readFile(p, 'utf-8')\<close>.\<close>

definition fs_readFile :: "world \<Rightarrow> disk \<Rightarrow> jsstring \<Rightarrow> js_error + jsstring" where
  "fs_readFile w d p =
     (case io_fault w ReadFile p of
        Some m \<Rightarrow> Inl (Error m)
      | None \<Rightarrow>
          (case d p of
             None \<Rightarrow> Inl (system_error ''ENOENT: no such file or directory'' ''open'' p)
           | Some Dir \<Rightarrow> Inl (system_error ''EISDIR: illegal operation on a directory'' ''read'' p)
           | Some (File text) \<Rightarrow> Inr text))"

text \<open>
  \<^verbatim>\<open>fs.writeFile(p, text)\<close> creates or replaces the file, which then reads back as
  \<open>utf8_roundtrip text\<close>. A write that faults is taken to leave the files as they were.
\<close>

definition fs_writeFile :: "world \<Rightarrow> disk \<Rightarrow> jsstring \<Rightarrow> jsstring \<Rightarrow> js_error + disk" where
  "fs_writeFile w d p text =
     (case io_fault w WriteFile p of
        Some m \<Rightarrow> Inl (Error m)
      | None \<Rightarrow>
          (case d p of
             Some Dir \<Rightarrow> Inl (system_error ''EISDIR: illegal operation on a directory'' ''open'' p)
           | _ \<Rightarrow> Inr (d(p \<mapsto> File (utf8_roundtrip text)))))"

text \<open>\<^verbatim>\<open>fs.unlink(p)\<close> removes the file.\<close>

definition fs_unlink :: "world \<Rightarrow> disk \<Rightarrow> jsstring \<Rightarrow> js_error + disk" where
  "fs_unlink w d p =
     (case io_fault w Unlink p of
        Some m \<Rightarrow> Inl (Error m)
      | None \<Rightarrow>
          (case d p of
             None \<Rightarrow> Inl (system_error ''ENOENT: no such file or directory'' ''unlink'' p)
           | Some Dir \<Rightarrow> Inl (system_error ''EISDIR: illegal operation on a directory'' ''unlink'' p)
           | Some (File text) \<Rightarrow> Inr (d(p := None))))"

subsection \<open>The tester\<close>

record TestResult =
  name :: jsstring
  passed :: bool
  message :: jsstring

text \<open>The \<^verbatim>\<open>results\<close> array of the tester, and the files as they are now.\<close>

record state =
  results :: "TestResult list"
  disk :: disk

definition addResult :: "jsstring \<Rightarrow> bool \<Rightarrow> jsstring \<Rightarrow> state \<Rightarrow> state" where
  "addResult n p m s = s\<lparr>results := results s @ [\<lparr>name = n, passed = p, message = m\<rparr>]\<rparr>"

text \<open>
  The body of a \<^verbatim>\<open>try\<close> block returns \<open>Inr\<close> of the state it ends in, or \<open>Inl\<close> of
  the thrown value with the state at the throw: results pushed before a throw stay pushed.
\<close>

type_synonym try_result = "js_error \<times> state + state"

subsubsection \<open>\<^verbatim>\<open>testProjectStructure\<close>\<close>

definition requiredFiles :: "jsstring list" where
  "requiredFiles =
     [ascii ''package.json'', ascii ''tsconfig.json'', ascii ''src/index.ts'',
      ascii ''README.md'', ascii ''.gitignore'', ascii ''.eslintrc.json'']"

definition structure_result :: "jsstring \<Rightarrow> bool \<Rightarrow> TestResult" where
  "structure_result file ok =
     \<lparr>name = ascii ''Project structure - '' @ file, passed = ok,
      message = (if ok then CHECK_MARK @ ascii '' '' @ file @ ascii '' exists''
                 else CROSS_MARK @ ascii '' '' @ file @ ascii '' missing'')\<rparr>"

fun probe_files :: "world \<Rightarrow> jsstring list \<Rightarrow> state \<Rightarrow> state" where
  "probe_files w [] s = s"
| "probe_files w (file # files) s =
     probe_files w files
       (case fs_access w (disk s) file of
          None \<Rightarrow>
            addResult (ascii ''Project structure - '' @ file) True
              (CHECK_MARK @ ascii '' '' @ file @ ascii '' exists'') s
        | Some e \<Rightarrow>
            addResult (ascii ''Project structure - '' @ file) False
              (CROSS_MARK @ ascii '' '' @ file @ ascii '' missing'') s)"

definition testProjectStructure :: "world \<Rightarrow> state \<Rightarrow> state" where
  "testProjectStructure w s = probe_files w requiredFiles s"

subsubsection \<open>\<^verbatim>\<open>testDependencies\<close>\<close>

definition requiredDeps :: "jsstring list" where
  "requiredDeps =
     [ascii ''@modelcontextprotocol/sdk'', ascii ''@google/generative-ai'',
      ascii ''dotenv'', ascii ''zod'']"

fun check_deps :: "json \<Rightarrow> jsstring list \<Rightarrow> state \<Rightarrow> try_result" where
  "check_deps packageJson [] s = Inr s"
| "check_deps packageJson (dep # deps) s =
     (case get_prop (Some packageJson) (ascii ''dependencies'') of
        Inl e \<Rightarrow> Inl (e, s)
      | Inr dependencies \<Rightarrow>
          (case get_prop dependencies dep of
             Inl e \<Rightarrow> Inl (e, s)
           | Inr v \<Rightarrow>
               check_deps packageJson deps
                 (if truthy v
                  then addResult (ascii ''Dependencies - '' @ dep) True
                         (CHECK_MARK @ ascii '' '' @ dep @ ascii '' found'') s
                  else addResult (ascii ''Dependencies - '' @ dep) False
                         (CROSS_MARK @ ascii '' '' @ dep @ ascii '' missing'') s)))"

definition check_node_modules :: "world \<Rightarrow> state \<Rightarrow> state" where
  "check_node_modules w s =
     (case fs_access w (disk s) (ascii ''node_modules'') of
        None \<Rightarrow>
          addResult (ascii ''Dependencies - node_modules'') True
            (CHECK_MARK @ ascii '' Dependencies installed'') s
      | Some e \<Rightarrow>
          addResult (ascii ''Dependencies - node_modules'') False
            (CROSS_MARK @ ascii '' Run npm install first'') s)"

definition dependencies_try :: "world \<Rightarrow> state \<Rightarrow> try_result" where
  "dependencies_try w s =
     (case fs_readFile w (disk s) (ascii ''package.json'') of
        Inl e \<Rightarrow> Inl (e, s)
      | Inr text \<Rightarrow>
          (case JSON_parse w text of
             Inl m \<Rightarrow> Inl (SyntaxError m, s)
           | Inr packageJson \<Rightarrow>
               (case check_deps packageJson requiredDeps s of
                  Inl thrown \<Rightarrow> Inl thrown
                | Inr s' \<Rightarrow> Inr (check_node_modules w s'))))"

definition dependencies_failure :: "js_error \<Rightarrow> TestResult" where
  "dependencies_failure e =
     \<lparr>name = ascii ''Dependencies check'', passed = False,
      message = CROSS_MARK @ ascii '' Failed to check dependencies: '' @ error_toString e\<rparr>"

definition testDependencies :: "world \<Rightarrow> state \<Rightarrow> state" where
  "testDependencies w s =
     (case dependencies_try w s of
        Inl (e, s') \<Rightarrow>
          addResult (ascii ''Dependencies check'') False
            (CROSS_MARK @ ascii '' Failed to check dependencies: '' @ error_toString e) s'
      | Inr s' \<Rightarrow> s')"

subsubsection \<open>\<^verbatim>\<open>testBuildProcess\<close>\<close>

text \<open>
  How the promise a check returns settles: resolved, rejected with a thrown value, never
  settled, or cut short by an exception nothing catches.
\<close>

datatype check_outcome =
    Resolved state
  | Rejected js_error state
  | Uncaught js_error state
  | Pending state

text \<open>
  The executor registers listeners for the data of stdout and stderr and for
  \<^verbatim>\<open>'close'\<close>, and only the \<^verbatim>\<open>'close'\<close> listener calls \<^verbatim>\<open>resolve\<close>.
  \<^verbatim>\<open>errorOutput\<close> is the concatenation of the stderr chunks.
\<close>

definition on_close :: "world \<Rightarrow> int option \<Rightarrow> jsstring \<Rightarrow> state \<Rightarrow> state" where
  "on_close w code errorOutput s =
     (if code = Some 0 then
        (case fs_access w (disk s) (ascii ''dist'') of
           None \<Rightarrow>
             addResult (ascii ''Build process'') True (CHECK_MARK @ ascii '' Build successful'') s
         | Some e \<Rightarrow>
             addResult (ascii ''Build process'') False
               (CROSS_MARK @ ascii '' Dist directory not created'') s)
      else
        addResult (ascii ''Build process'') False
          (CROSS_MARK @ ascii '' Build failed: '' @ errorOutput) s)"

definition testBuildProcess :: "world \<Rightarrow> state \<Rightarrow> check_outcome" where
  "testBuildProcess w s =
     (case npm_run_build w (disk s) of
        (SpawnThrows e, d) \<Rightarrow> Rejected e s
      | (ErrorEvent e, d) \<Rightarrow> Uncaught e s
      | (Close code out err, d) \<Rightarrow> Resolved (on_close w code (concat err) (s\<lparr>disk := d\<rparr>))
      | (NeverCloses, d) \<Rightarrow> Pending (s\<lparr>disk := d\<rparr>))"

subsubsection \<open>\<^verbatim>\<open>testConfigurationHandling\<close>\<close>

definition configPath :: jsstring where
  "configPath = ascii ''.nano-banana-config-test.json''"

text \<open>
  The source fixes the value of \<^verbatim>\<open>testConfig.geminiApiKey\<close>; the body is written
  for any value \<open>key\<close>, and the check is the body at the source's value.
\<close>

definition configuration_try :: "jsstring \<Rightarrow> world \<Rightarrow> state \<Rightarrow> try_result" where
  "configuration_try key w s =
     (let testConfig = JObject [(ascii ''geminiApiKey'', JString key)] in
      case fs_writeFile w (disk s) configPath (JSON_stringify w testConfig) of
        Inl e \<Rightarrow> Inl (e, s)
      | Inr d1 \<Rightarrow>
          (let s1 = addResult (ascii ''Configuration - Write'') True
                      (CHECK_MARK @ ascii '' Config file written'') (s\<lparr>disk := d1\<rparr>) in
           case fs_readFile w (disk s1) configPath of
             Inl e \<Rightarrow> Inl (e, s1)
           | Inr configData \<Rightarrow>
               (case JSON_parse w configData of
                  Inl m \<Rightarrow> Inl (SyntaxError m, s1)
                | Inr parsedConfig \<Rightarrow>
                    (case get_prop (Some parsedConfig) (ascii ''geminiApiKey'') of
                       Inl e \<Rightarrow> Inl (e, s1)
                     | Inr v \<Rightarrow>
                         (let s2 =
                            (if v = Some (JString key)
                             then addResult (ascii ''Configuration - Read'') True
                                    (CHECK_MARK @ ascii '' Config file read correctly'') s1
                             else addResult (ascii ''Configuration - Read'') False
                                    (CROSS_MARK @ ascii '' Config data mismatch'') s1) in
                          case fs_unlink w (disk s2) configPath of
                            Inl e \<Rightarrow> Inl (e, s2)
                          | Inr d3 \<Rightarrow>
                              Inr (addResult (ascii ''Configuration - Cleanup'') True
                                     (CHECK_MARK @ ascii '' Test config cleaned up'')
                                     (s2\<lparr>disk := d3\<rparr>)))))))"

definition configuration_failure :: "js_error \<Rightarrow> TestResult" where
  "configuration_failure e =
     \<lparr>name = ascii ''Configuration handling'', passed = False,
      message = CROSS_MARK @ ascii '' Configuration test failed: '' @ error_toString e\<rparr>"

definition testConfigurationHandlingWith :: "jsstring \<Rightarrow> world \<Rightarrow> state \<Rightarrow> state" where
  "testConfigurationHandlingWith key w s =
     (case configuration_try key w s of
        Inl (e, s') \<Rightarrow>
          addResult (ascii ''Configuration handling'') False
            (CROSS_MARK @ ascii '' Configuration test failed: '' @ error_toString e) s'
      | Inr s' \<Rightarrow> s')"

definition testConfigurationHandling :: "world \<Rightarrow> state \<Rightarrow> state" where
  "testConfigurationHandling w s =
     testConfigurationHandlingWith (ascii ''test-api-key-for-integration-testing'') w s"

subsubsection \<open>\<^verbatim>\<open>testToolSchema\<close>\<close>

definition requiredElements :: "jsstring list" where
  "requiredElements =
     [ascii ''configure_gemini_token'', ascii ''generate_image'', ascii ''edit_image'',
      ascii ''get_configuration_status'', ascii ''GoogleGenerativeAI'',
      ascii ''gemini-3-pro-image-preview'']"

fun check_elements :: "jsstring \<Rightarrow> jsstring list \<Rightarrow> state \<Rightarrow> state" where
  "check_elements sourceCode [] s = s"
| "check_elements sourceCode (element # elements) s =
     check_elements sourceCode elements
       (if js_includes sourceCode element
        then addResult (ascii ''Tool Schema - '' @ element) True
               (CHECK_MARK @ ascii '' '' @ element @ ascii '' found'') s
        else addResult (ascii ''Tool Schema - '' @ element) False
               (CROSS_MARK @ ascii '' '' @ element @ ascii '' missing'') s)"

definition hasMimeTypeLogic :: "jsstring \<Rightarrow> bool" where
  "hasMimeTypeLogic sourceCode =
     (js_includes sourceCode (ascii ''getMimeType'') \<or>
      js_includes sourceCode (ascii ''image/jpeg'') \<or>
      js_includes sourceCode (ascii ''image/png''))"

definition mime_result :: "jsstring \<Rightarrow> TestResult" where
  "mime_result sourceCode =
     \<lparr>name = ascii ''MIME type handling'', passed = hasMimeTypeLogic sourceCode,
      message = (if hasMimeTypeLogic sourceCode then CHECK_MARK @ ascii '' MIME type logic found''
                 else CROSS_MARK @ ascii '' MIME type logic missing'')\<rparr>"

definition schema_try :: "world \<Rightarrow> state \<Rightarrow> try_result" where
  "schema_try w s =
     (case fs_readFile w (disk s) (ascii ''src/index.ts'') of
        Inl e \<Rightarrow> Inl (e, s)
      | Inr sourceCode \<Rightarrow>
          (let s1 = check_elements sourceCode requiredElements s in
           Inr (addResult (ascii ''MIME type handling'') (hasMimeTypeLogic sourceCode)
                  (if hasMimeTypeLogic sourceCode
                   then CHECK_MARK @ ascii '' MIME type logic found''
                   else CROSS_MARK @ ascii '' MIME type logic missing'') s1)))"

definition testToolSchema :: "world \<Rightarrow> state \<Rightarrow> state" where
  "testToolSchema w s =
     (case schema_try w s of
        Inl (e, s') \<Rightarrow>
          addResult (ascii ''Tool Schema validation'') False
            (CROSS_MARK @ ascii '' Schema test failed: '' @ error_toString e) s'
      | Inr s' \<Rightarrow> s')"

subsubsection \<open>\<^verbatim>\<open>printResults\<close> and \<^verbatim>\<open>runAllTests\<close>\<close>

text \<open>
  \<^verbatim>\<open>printResults\<close> counts the passed results and calls \<^verbatim>\<open>process.exit(1)\<close> when
  the count is not the total; otherwise it returns and the process ends with code 0.
  The function is the exit code.
\<close>

definition printResults :: "TestResult list \<Rightarrow> int" where
  "printResults rs =
     (let passedCount = length (filter passed rs); total = length rs
      in if passedCount = total then 0 else 1)"

text \<open>
  How a run ends: \<^verbatim>\<open>printResults\<close> was reached (with the code it chose); the
  \<^verbatim>\<open>catch\<close> of \<^verbatim>\<open>runAllTests\<close> logged a rejection and called
  \<^verbatim>\<open>process.exit(1)\<close>; an uncaught exception ended the process (Node's exit code for
  it is 1); the script waits for ever.
\<close>

datatype run_outcome =
    Reported int state
  | Fatal js_error state
  | Crashed js_error state
  | Hung state

definition runAllTests :: "world \<Rightarrow> run_outcome" where
  "runAllTests w =
     (let s0 = \<lparr>results = [], disk = disk0 w\<rparr>;
          s1 = testProjectStructure w s0;
          s2 = testDependencies w s1
      in case testBuildProcess w s2 of
           Resolved s3 \<Rightarrow>
             (let s4 = testConfigurationHandling w s3;
                  s5 = testToolSchema w s4
              in Reported (printResults (results s5)) s5)
         | Rejected e s3 \<Rightarrow> Fatal e s3
         | Uncaught e s3 \<Rightarrow> Crashed e s3
         | Pending s3 \<Rightarrow> Hung s3)"

fun exit_code :: "run_outcome \<Rightarrow> int option" where
  "exit_code (Reported c s) = Some c"
| "exit_code (Fatal e s) = Some 1"
| "exit_code (Crashed e s) = Some 1"
| "exit_code (Hung s) = None"

fun final_state :: "run_outcome \<Rightarrow> state" where
  "final_state (Reported c s) = s"
| "final_state (Fatal e s) = s"
| "final_state (Crashed e s) = s"
| "final_state (Hung s) = s"

definition result_log :: "run_outcome \<Rightarrow> TestResult list" where
  "result_log r = results (final_state r)"

fun reported :: "run_outcome \<Rightarrow> bool" where
  "reported (Reported c s) = True"
| "reported r = False"

subsection \<open>The runtime's JSON on an object with one string\<close>

text \<open>
  \<^verbatim>\<open>JSON.stringify\<close> and \<^verbatim>\<open>JSON.parse\<close> are built into the runtime, and the checks
  take them from the world. For the round trip of the synthetic configuration the two are
  written out here, after ECMA-262, on the only shape the harness serialises: an object with
  one property that holds a string.
\<close>

text \<open>
  \<^verbatim>\<open>JSON.stringify\<close> quotes a string as ECMA-262 prescribes (QuoteJSONString): the two-character
  escapes for backspace, tab, line feed, form feed, carriage return, the quotation mark and
  the backslash; \<^verbatim>\<open>\uXXXX\<close> with lower-case digits for the other code units below
  \<^verbatim>\<open>U+0020\<close> and for a surrogate without its partner; every other code unit, and every
  surrogate pair, as it is.
\<close>

definition hex_digit :: "16 word \<Rightarrow> 16 word" where
  "hex_digit n = (if n < 10 then 0x30 + n else 0x57 + n)"

definition nibble :: "nat \<Rightarrow> 16 word \<Rightarrow> 16 word" where
  "nibble k c = take_bit 4 (drop_bit (4 * k) c)"

definition unicode_escape :: "16 word \<Rightarrow> jsstring" where
  "unicode_escape c =
     [0x5C, 0x75, hex_digit (nibble 3 c), hex_digit (nibble 2 c),
      hex_digit (nibble 1 c), hex_digit (nibble 0 c)]"

fun quote_body :: "jsstring \<Rightarrow> jsstring" where
  "quote_body [] = []"
| "quote_body (c # cs) =
     (if c = 0x08 then [0x5C, 0x62] @ quote_body cs
      else if c = 0x09 then [0x5C, 0x74] @ quote_body cs
      else if c = 0x0A then [0x5C, 0x6E] @ quote_body cs
      else if c = 0x0C then [0x5C, 0x66] @ quote_body cs
      else if c = 0x0D then [0x5C, 0x72] @ quote_body cs
      else if c = 0x22 then [0x5C, 0x22] @ quote_body cs
      else if c = 0x5C then [0x5C, 0x5C] @ quote_body cs
      else if c < 0x20 then unicode_escape c @ quote_body cs
      else if is_high_surrogate c then
        (case cs of
           [] \<Rightarrow> unicode_escape c
         | d # ds \<Rightarrow>
             if is_low_surrogate d then c # d # quote_body ds
             else unicode_escape c @ quote_body cs)
      else if is_low_surrogate c then unicode_escape c @ quote_body cs
      else c # quote_body cs)"

definition QuoteJSONString :: "jsstring \<Rightarrow> jsstring" where
  "QuoteJSONString s = [0x22] @ quote_body s @ [0x22]"

text \<open>
  \<^verbatim>\<open>JSON.stringify({k: v}, null, 2)\<close> for a string \<open>v\<close> (SerializeJSONObject with a
  gap of two spaces): an opening brace, a line feed, the gap, the quoted key, a colon and a
  space, the quoted value, a line feed, a closing brace.
\<close>

definition stringify_member :: "jsstring \<Rightarrow> jsstring \<Rightarrow> jsstring" where
  "stringify_member k v =
     [0x7B, 0x0A, 0x20, 0x20] @ QuoteJSONString k @ [0x3A, 0x20] @ QuoteJSONString v @
     [0x0A, 0x7D]"

text \<open>
  \<^verbatim>\<open>JSON.parse\<close> on the texts of that shape, after the JSON grammar: white space is
  space, tab, line feed and carriage return; a string runs to the next unescaped quotation
  mark, admits the escapes \<^verbatim>\<open>\" \\ \/ \b \f \n \r \t \uXXXX\<close> (hexadecimal digits of
  either case) and no code unit below \<^verbatim>\<open>U+0020\<close>. \<open>parse_member_object\<close> reads an
  object with exactly one member whose value is a string, and is \<open>None\<close> on every other
  text: those are left to the \<open>JSON_parse\<close> of the world.
\<close>

fun skip_ws :: "jsstring \<Rightarrow> jsstring" where
  "skip_ws [] = []"
| "skip_ws (c # cs) =
     (if c = 0x20 \<or> c = 0x09 \<or> c = 0x0A \<or> c = 0x0D then skip_ws cs else c # cs)"

definition hex_value :: "16 word \<Rightarrow> 16 word option" where
  "hex_value c =
     (if 0x30 \<le> c \<and> c \<le> 0x39 then Some (c - 0x30)
      else if 0x61 \<le> c \<and> c \<le> 0x66 then Some (c - 0x57)
      else if 0x41 \<le> c \<and> c \<le> 0x46 then Some (c - 0x37)
      else None)"

definition unescape :: "16 word \<Rightarrow> 16 word option" where
  "unescape e =
     (if e = 0x22 then Some 0x22
      else if e = 0x5C then Some 0x5C
      else if e = 0x2F then Some 0x2F
      else if e = 0x62 then Some 0x08
      else if e = 0x66 then Some 0x0C
      else if e = 0x6E then Some 0x0A
      else if e = 0x72 then Some 0x0D
      else if e = 0x74 then Some 0x09
      else None)"

definition hex4 :: "16 word \<Rightarrow> 16 word \<Rightarrow> 16 word \<Rightarrow> 16 word \<Rightarrow> 16 word" where
  "hex4 a b c d = push_bit 12 a OR push_bit 8 b OR push_bit 4 c OR d"

fun parse_chars :: "jsstring \<Rightarrow> (jsstring \<times> jsstring) option" where
  "parse_chars [] = None"
| "parse_chars (c # cs) =
     (if c = 0x22 then Some ([], cs)
      else if c = 0x5C then
        (case cs of
           [] \<Rightarrow> None
         | e # es \<Rightarrow>
             if e = 0x75 then
               (case es of
                  h3 # h2 # h1 # h0 # rest \<Rightarrow>
                    (case (hex_value h3, hex_value h2, hex_value h1, hex_value h0) of
                       (Some a, Some b, Some c', Some d) \<Rightarrow>
                         (case parse_chars rest of
                            None \<Rightarrow> None
                          | Some (v, r) \<Rightarrow> Some (hex4 a b c' d # v, r))
                     | _ \<Rightarrow> None)
                | _ \<Rightarrow> None)
             else
               (case unescape e of
                  None \<Rightarrow> None
                | Some u \<Rightarrow>
                    (case parse_chars es of
                       None \<Rightarrow> None
                     | Some (v, r) \<Rightarrow> Some (u # v, r))))
      else if c < 0x20 then None
      else
        (case parse_chars cs of
           None \<Rightarrow> None
         | Some (v, r) \<Rightarrow> Some (c # v, r)))"

definition parse_string :: "jsstring \<Rightarrow> (jsstring \<times> jsstring) option" where
  "parse_string t =
     (case skip_ws t of
        [] \<Rightarrow> None
      | c # cs \<Rightarrow> if c = 0x22 then parse_chars cs else None)"

definition parse_member_object :: "jsstring \<Rightarrow> (jsstring \<times> jsstring) option" where
  "parse_member_object t =
     (case skip_ws t of
        [] \<Rightarrow> None
      | c # t1 \<Rightarrow>
          if c \<noteq> 0x7B then None
          else
            (case parse_string t1 of
               None \<Rightarrow> None
             | Some (k, t2) \<Rightarrow>
                 (case skip_ws t2 of
                    [] \<Rightarrow> None
                  | c2 # t3 \<Rightarrow>
                      if c2 \<noteq> 0x3A then None
                      else
                        (case parse_string t3 of
                           None \<Rightarrow> None
                         | Some (v, t4) \<Rightarrow>
                             (case skip_ws t4 of
                                [] \<Rightarrow> None
                              | c4 # t5 \<Rightarrow>
                                  if c4 = 0x7D \<and> skip_ws t5 = [] then Some (k, v)
                                  else None)))))"

text \<open>A world whose JSON functions are the runtime's on that shape.\<close>

definition ecmascript_json :: "world \<Rightarrow> bool" where
  "ecmascript_json w =
     ((\<forall>k v. JSON_stringify w (JObject [(k, JString v)]) = stringify_member k v) \<and>
      (\<forall>content k v. parse_member_object content = Some (k, v) \<longrightarrow>
         JSON_parse w content = Inr (JObject [(k, JString v)])))"

subsection \<open>The results by name\<close>

text \<open>
  The records the checks push, named so that the theorems can speak of them. Each is one
  \<^verbatim>\<open>addResult\<close> call of the source, with the outcome as a parameter where the
  source has two calls.
\<close>

definition dependency_result :: "jsstring \<Rightarrow> bool \<Rightarrow> TestResult" where
  "dependency_result dep ok =
     \<lparr>name = ascii ''Dependencies - '' @ dep, passed = ok,
      message = (if ok then CHECK_MARK @ ascii '' '' @ dep @ ascii '' found''
                 else CROSS_MARK @ ascii '' '' @ dep @ ascii '' missing'')\<rparr>"

definition node_modules_result :: "bool \<Rightarrow> TestResult" where
  "node_modules_result ok =
     \<lparr>name = ascii ''Dependencies - node_modules'', passed = ok,
      message = (if ok then CHECK_MARK @ ascii '' Dependencies installed''
                 else CROSS_MARK @ ascii '' Run npm install first'')\<rparr>"

definition build_success :: TestResult where
  "build_success =
     \<lparr>name = ascii ''Build process'', passed = True,
      message = CHECK_MARK @ ascii '' Build successful''\<rparr>"

definition build_failure :: "jsstring \<Rightarrow> TestResult" where
  "build_failure errorOutput =
     \<lparr>name = ascii ''Build process'', passed = False,
      message = CROSS_MARK @ ascii '' Build failed: '' @ errorOutput\<rparr>"

definition config_written :: TestResult where
  "config_written =
     \<lparr>name = ascii ''Configuration - Write'', passed = True,
      message = CHECK_MARK @ ascii '' Config file written''\<rparr>"

definition config_read_result :: "bool \<Rightarrow> TestResult" where
  "config_read_result ok =
     \<lparr>name = ascii ''Configuration - Read'', passed = ok,
      message = (if ok then CHECK_MARK @ ascii '' Config file read correctly''
                 else CROSS_MARK @ ascii '' Config data mismatch'')\<rparr>"

definition config_cleaned_up :: TestResult where
  "config_cleaned_up =
     \<lparr>name = ascii ''Configuration - Cleanup'', passed = True,
      message = CHECK_MARK @ ascii '' Test config cleaned up''\<rparr>"

definition element_result :: "jsstring \<Rightarrow> bool \<Rightarrow> TestResult" where
  "element_result element ok =
     \<lparr>name = ascii ''Tool Schema - '' @ element, passed = ok,
      message = (if ok then CHECK_MARK @ ascii '' '' @ element @ ascii '' found''
                 else CROSS_MARK @ ascii '' '' @ element @ ascii '' missing'')\<rparr>"

definition schema_failure :: "js_error \<Rightarrow> TestResult" where
  "schema_failure e =
     \<lparr>name = ascii ''Tool Schema validation'', passed = False,
      message = CROSS_MARK @ ascii '' Schema test failed: '' @ error_toString e\<rparr>"

subsection \<open>Sample environments\<close>

text \<open>
  A project in which every check passes: the six required files, installed dependencies,
  a manifest with the four packages, a source text with every required identifier and the
  helper name, no fault of the file system, and a build that exits with 0 and leaves
  \<^verbatim>\<open>dist\<close> (or, when there is no \<^verbatim>\<open>package.json\<close>, exits with 254 as
  \<^verbatim>\<open>npm\<close> does). The JSON functions of this environment know the two texts the run
  meets.
\<close>

definition sample_npm_error :: jsstring where
  "sample_npm_error = ascii ''npm error enoent Could not read package.json''"

definition sample_manifest_text :: jsstring where
  \<open>sample_manifest_text =
     ascii ''{"name":"nano-banana-mcp","dependencies":{"@modelcontextprotocol/sdk":"^1.0.0","@google/generative-ai":"^0.21.0","dotenv":"^16.4.5","zod":"^3.23.8"}}''\<close>

definition sample_manifest :: json where
  "sample_manifest =
     JObject
       [(ascii ''name'', JString (ascii ''nano-banana-mcp'')),
        (ascii ''dependencies'',
         JObject
           [(ascii ''@modelcontextprotocol/sdk'', JString (ascii ''^1.0.0'')),
            (ascii ''@google/generative-ai'', JString (ascii ''^0.21.0'')),
            (ascii ''dotenv'', JString (ascii ''^16.4.5'')),
            (ascii ''zod'', JString (ascii ''^3.23.8''))])]"

definition sample_source :: jsstring where
  "sample_source =
     ascii ''configure_gemini_token generate_image edit_image get_configuration_status GoogleGenerativeAI gemini-3-pro-image-preview getMimeType''"

definition sample_config :: json where
  "sample_config =
     JObject [(ascii ''geminiApiKey'', JString (ascii ''test-api-key-for-integration-testing''))]"

definition sample_config_text :: jsstring where
  \<open>sample_config_text =
     ascii ''{"geminiApiKey": "test-api-key-for-integration-testing"}''\<close>

definition sample_disk :: disk where
  "sample_disk =
     map_of
       [(ascii ''package.json'', File sample_manifest_text),
        (ascii ''tsconfig.json'', File (ascii ''{}'')),
        (ascii ''src/index.ts'', File sample_source),
        (ascii ''README.md'', File (ascii ''nano-banana'')),
        (ascii ''.gitignore'', File (ascii ''node_modules'')),
        (ascii ''.eslintrc.json'', File (ascii ''{}'')),
        (ascii ''node_modules'', Dir)]"

definition sample_parse :: "jsstring \<Rightarrow> jsstring + json" where
  "sample_parse text =
     (if text = sample_manifest_text then Inr sample_manifest
      else if text = sample_config_text then Inr sample_config
      else Inl (ascii ''Unexpected token''))"

definition sample_world :: world where
  "sample_world =
     \<lparr>disk0 = sample_disk,
      io_fault = (\<lambda>op p. None),
      npm_run_build =
        (\<lambda>d. case d (ascii ''package.json'') of
                None \<Rightarrow> (Close (Some 254) [] [sample_npm_error], d)
              | Some n \<Rightarrow> (Close (Some 0) [] [], d(ascii ''dist'' \<mapsto> Dir))),
      JSON_parse = sample_parse,
      JSON_stringify = (\<lambda>v. sample_config_text)\<rparr>"

definition sample_log :: "TestResult list" where
  "sample_log =
     map (\<lambda>file. structure_result file True) requiredFiles @
     map (\<lambda>dep. dependency_result dep True) requiredDeps @
     [node_modules_result True, build_success,
      config_written, config_read_result True, config_cleaned_up] @
     map (\<lambda>element. element_result element True) requiredElements @
     [mime_result sample_source]"

text \<open>
  Variants of the sample project: \<^verbatim>\<open>npm\<close> cannot be started;
  \<^verbatim>\<open>spawn\<close> itself throws; one operation on the
  synthetic configuration file is refused; a required file is removed before the run; the
  manifest has no \<^verbatim>\<open>dependencies\<close> section.
\<close>

definition no_npm_world :: world where
  "no_npm_world =
     sample_world\<lparr>npm_run_build := (\<lambda>d. (ErrorEvent (Error (ascii ''spawn npm ENOENT'')), d))\<rparr>"


definition refusing_world :: "fs_op \<Rightarrow> world" where
  "refusing_world op =
     sample_world
       \<lparr>io_fault :=
          (\<lambda>op' p. if op' = op \<and> p = configPath
                    then Some (ascii ''EACCES: permission denied'') else None)\<rparr>"

definition remove_file :: "jsstring \<Rightarrow> world \<Rightarrow> world" where
  "remove_file f w = w\<lparr>disk0 := (disk0 w)(f := None)\<rparr>"

definition bare_manifest_text :: jsstring where
  \<open>bare_manifest_text = ascii ''{"name":"nano-banana-mcp"}''\<close>

definition bare_manifest :: json where
  "bare_manifest = JObject [(ascii ''name'', JString (ascii ''nano-banana-mcp''))]"

definition bare_manifest_world :: world where
  "bare_manifest_world =
     sample_world
       \<lparr>disk0 := sample_disk(ascii ''package.json'' \<mapsto> File bare_manifest_text),
        JSON_parse :=
          (\<lambda>text. if text = bare_manifest_text then Inr bare_manifest
                   else sample_parse text)\<rparr>"

text \<open>The log of the sample project run without its \<^verbatim>\<open>package.json\<close>.\<close>

definition manifest_removed_log :: "TestResult list" where
  "manifest_removed_log =
     structure_result (ascii ''package.json'') False #
     map (\<lambda>file. structure_result file True) (tl requiredFiles) @
     [dependencies_failure
        (system_error ''ENOENT: no such file or directory'' ''open'' (ascii ''package.json'')),
      build_failure sample_npm_error,
      config_written, config_read_result True, config_cleaned_up] @
     map (\<lambda>element. element_result element True) requiredElements @
     [mime_result sample_source]"

text \<open>
  The sample project with the runtime's JSON on one-member objects, and a value for the
  synthetic key with a quotation mark, a line feed, a backslash, a surrogate pair, a low
  surrogate on its own and a letter.
\<close>

definition ecma_world :: world where
  "ecma_world =
     sample_world
       \<lparr>JSON_parse :=
          (\<lambda>content. case parse_member_object content of
                        Some (k, v) \<Rightarrow> Inr (JObject [(k, JString v)])
                      | None \<Rightarrow> sample_parse content),
        JSON_stringify :=
          (\<lambda>v. case v of
                  JObject [(k, JString x)] \<Rightarrow> stringify_member k x
                | _ \<Rightarrow> sample_config_text)\<rparr>"

definition tricky_key :: jsstring where
  "tricky_key = [0x22, 0x0A, 0x5C, 0xD83D, 0xDE00, 0xDC00, 0x41]"

section \<open>Lemmas\<close>

subsection \<open>Strings\<close>

lemma of_char_word_eq_iff: "((of_char c :: 16 word) = of_char d) = (c = d)"
proof -
  have lt: "(of_char x :: nat) < 2 ^ 16" for x
    by (rule less_trans [OF nat_of_char_less_256]) simp
  have tb: "take_bit 16 (of_char x :: nat) = of_char x" for x
    by (rule take_bit_nat_eq_self) (rule lt)
  have "((of_char c :: 16 word) = of_char d) =
        ((word_of_nat (of_char c) :: 16 word) = word_of_nat (of_char d))"
    by (simp only: of_nat_of_char)
  also have "\<dots> = (c = d)"
    by (simp add: word_of_nat_eq_iff tb)
  finally show ?thesis .
qed

lemma ascii_eq_iff: "(ascii s = ascii t) = (s = t)"
  unfolding ascii_def by (rule inj_map_eq_map) (simp add: inj_def of_char_word_eq_iff)

lemma ascii_append: "ascii s @ ascii t = ascii (s @ t)"
  by (simp add: ascii_def)

lemma of_char_word_le: "(of_char c :: 16 word) \<le> 0xFF"
proof -
  have "(of_char c :: 16 word) = word_of_nat (of_char c)"
    by (simp only: of_nat_of_char)
  moreover have "(of_char c :: nat) \<le> 255"
    using nat_of_char_less_256 [of c] by linarith
  ultimately show ?thesis
    by (simp add: word_le_nat_alt unat_of_nat take_bit_nat_eq_self)
qed

lemma of_char_not_surrogate:
  "\<not> is_high_surrogate (of_char c)" "\<not> is_low_surrogate (of_char c)"
proof -
  have le: "(of_char c :: 16 word) \<le> 0xFF" by (rule of_char_word_le)
  show "\<not> is_high_surrogate (of_char c)"
  proof
    assume "is_high_surrogate (of_char c)"
    then have "(0xD800 :: 16 word) \<le> of_char c" by (simp add: is_high_surrogate_def)
    from this le have "(0xD800 :: 16 word) \<le> 0xFF" by (rule order_trans)
    then show False by simp
  qed
  show "\<not> is_low_surrogate (of_char c)"
  proof
    assume "is_low_surrogate (of_char c)"
    then have "(0xDC00 :: 16 word) \<le> of_char c" by (simp add: is_low_surrogate_def)
    from this le have "(0xDC00 :: 16 word) \<le> 0xFF" by (rule order_trans)
    then show False by simp
  qed
qed

lemma utf8_roundtrip_ascii: "utf8_roundtrip (ascii s) = ascii s"
  by (induction s) (simp_all add: ascii_def of_char_not_surrogate)

lemma prefix_ascii: "prefix (ascii t) (ascii s) = prefix t s"
proof (induction t arbitrary: s)
  case Nil
  show ?case by (simp add: ascii_def)
next
  case (Cons c t)
  then show ?case
    by (cases s) (simp_all add: ascii_def of_char_word_eq_iff)
qed

lemma js_includes_ascii: "js_includes (ascii s) (ascii t) = js_includes s t"
proof (induction s)
  case Nil
  have "(ascii t = ascii []) = (t = [])" by (rule ascii_eq_iff)
  then show ?case by (simp add: ascii_def)
next
  case (Cons c s)
  have "prefix (ascii t) (ascii (c # s)) = prefix t (c # s)" by (rule prefix_ascii)
  with Cons show ?case by (simp add: ascii_def)
qed

lemma js_includes_iff_sublist: "js_includes s t = sublist t s"
  by (induction s) (auto simp: sublist_Cons_right)

lemma js_includes_append: "js_includes (a @ b) b"
  by (simp add: js_includes_iff_sublist)

subsection \<open>The reporter\<close>

lemma length_filter_eq: "(length (filter P xs) = length xs) = (\<forall>x\<in>set xs. P x)"
proof (induction xs)
  case Nil show ?case by simp
next
  case (Cons x xs)
  have "length (filter P xs) \<noteq> Suc (length xs)"
    using length_filter_le [of P xs] by linarith
  with Cons show ?case by auto
qed

lemma printResults_zero: "(printResults rs = 0) = (\<forall>r\<in>set rs. passed r)"
  by (simp add: printResults_def Let_def length_filter_eq)


subsection \<open>What each check appends\<close>

lemma results_addResult:
  "results (addResult n p m s) = results s @ [\<lparr>name = n, passed = p, message = m\<rparr>]"
  by (simp add: addResult_def)

lemma disk_addResult: "disk (addResult n p m s) = disk s"
  by (simp add: addResult_def)

lemma disk_probe_files: "disk (probe_files w files s) = disk s"
  by (induction files arbitrary: s) (simp_all add: disk_addResult split: option.splits)

lemma results_probe_files:
  "results (probe_files w files s) =
     results s @ map (\<lambda>file. structure_result file (fs_access w (disk s) file = None)) files"
  by (induction files arbitrary: s)
     (auto simp: disk_probe_files disk_addResult results_addResult structure_result_def
           split: option.splits)

lemma disk_testProjectStructure: "disk (testProjectStructure w s) = disk s"
  by (simp add: testProjectStructure_def disk_probe_files)

lemma results_testProjectStructure:
  "results (testProjectStructure w s) =
     results s @ map (\<lambda>file. structure_result file (fs_access w (disk s) file = None)) requiredFiles"
  by (simp add: testProjectStructure_def results_probe_files)

lemma disk_check_deps:
  "check_deps pj deps s = Inr s' \<Longrightarrow> disk s' = disk s"
  "check_deps pj deps s = Inl (e, s') \<Longrightarrow> disk s' = disk s"
  by (induction deps arbitrary: s)
     (auto simp: disk_addResult split: sum.splits if_splits)

lemma disk_testDependencies: "disk (testDependencies w s) = disk s"
  by (auto simp: testDependencies_def dependencies_try_def check_node_modules_def
        disk_addResult disk_check_deps split: sum.splits option.splits prod.splits)

subsection \<open>Evaluating the checks\<close>

lemma fs_access_no_fault:
  "io_fault w Access p = None \<Longrightarrow> d p = Some n \<Longrightarrow> fs_access w d p = None"
  by (simp add: fs_access_def)

lemma fs_access_absent: "d p = None \<Longrightarrow> fs_access w d p \<noteq> None"
  by (simp add: fs_access_def split: option.splits)

lemma fs_readFile_file:
  "io_fault w ReadFile p = None \<Longrightarrow> d p = Some (File text) \<Longrightarrow> fs_readFile w d p = Inr text"
  by (simp add: fs_readFile_def)

lemma check_elements_results:
  "results (check_elements src elements s) =
     results s @ map (\<lambda>el. element_result el (js_includes src el)) elements"
  by (induction elements arbitrary: s) (simp_all add: results_addResult element_result_def)

lemma disk_check_elements: "disk (check_elements src elements s) = disk s"
  by (induction elements arbitrary: s) (simp_all add: disk_addResult)

lemma results_testToolSchema_read:
  assumes "fs_readFile w (disk s) (ascii ''src/index.ts'') = Inr src"
  shows "results (testToolSchema w s) =
           results s @ map (\<lambda>el. element_result el (js_includes src el)) requiredElements @
           [mime_result src]"
  using assms
  by (simp add: testToolSchema_def schema_try_def Let_def results_addResult
        check_elements_results mime_result_def)

lemma results_testToolSchema_fault:
  assumes "fs_readFile w (disk s) (ascii ''src/index.ts'') = Inl e"
  shows "results (testToolSchema w s) = results s @ [schema_failure e]"
  using assms
  by (simp add: testToolSchema_def schema_try_def results_addResult schema_failure_def)

lemma disk_testToolSchema: "disk (testToolSchema w s) = disk s"
  by (simp add: testToolSchema_def schema_try_def Let_def disk_addResult disk_check_elements
        split: sum.splits)

lemma check_deps_object:
  assumes "get_prop (Some pj) (ascii ''dependencies'') = Inr (Some (JObject kvs))"
  shows "\<exists>s'. check_deps pj deps s = Inr s' \<and> disk s' = disk s \<and>
           results s' = results s @ map (\<lambda>dep. dependency_result dep (truthy (map_of kvs dep))) deps"
  using assms
proof (induction deps arbitrary: s)
  case Nil
  show ?case by simp
next
  case (Cons dep deps)
  let ?s1 = "if truthy (map_of kvs dep)
             then addResult (ascii ''Dependencies - '' @ dep) True
                    (CHECK_MARK @ ascii '' '' @ dep @ ascii '' found'') s
             else addResult (ascii ''Dependencies - '' @ dep) False
                    (CROSS_MARK @ ascii '' '' @ dep @ ascii '' missing'') s"
  from Cons.IH [OF Cons.prems, of ?s1]
  obtain s' where s': "check_deps pj deps ?s1 = Inr s'" "disk s' = disk ?s1"
    "results s' = results ?s1 @ map (\<lambda>dep. dependency_result dep (truthy (map_of kvs dep))) deps"
    by blast
  have "check_deps pj (dep # deps) s = Inr s'"
    using Cons.prems s'(1) by simp
  moreover have "disk s' = disk s"
    using s'(2) by (simp add: disk_addResult)
  moreover have "results s' = results s @
      map (\<lambda>dep. dependency_result dep (truthy (map_of kvs dep))) (dep # deps)"
    using s'(3) by (simp add: results_addResult dependency_result_def)
  ultimately show ?case by blast
qed

lemma results_testDependencies_object:
  assumes "fs_readFile w (disk s) (ascii ''package.json'') = Inr text"
    and "JSON_parse w text = Inr pj"
    and "get_prop (Some pj) (ascii ''dependencies'') = Inr (Some (JObject kvs))"
  shows "results (testDependencies w s) =
           results s @ map (\<lambda>dep. dependency_result dep (truthy (map_of kvs dep))) requiredDeps @
           [node_modules_result (fs_access w (disk s) (ascii ''node_modules'') = None)]"
proof -
  from check_deps_object [OF assms(3), of requiredDeps s]
  obtain s' where s': "check_deps pj requiredDeps s = Inr s'" "disk s' = disk s"
    "results s' = results s @
       map (\<lambda>dep. dependency_result dep (truthy (map_of kvs dep))) requiredDeps"
    by blast
  show ?thesis
    using assms(1,2) s'
    by (simp add: testDependencies_def dependencies_try_def check_node_modules_def
          results_addResult node_modules_result_def split: option.splits)
qed

subsection \<open>The configuration check, path by path\<close>

lemma config_write_fault:
  assumes "fs_writeFile w (disk s) configPath
             (JSON_stringify w (JObject [(ascii ''geminiApiKey'', JString key)])) = Inl e"
  shows "results (testConfigurationHandlingWith key w s) = results s @ [configuration_failure e]"
    and "disk (testConfigurationHandlingWith key w s) = disk s"
  using assms
  by (simp_all add: testConfigurationHandlingWith_def configuration_try_def
        results_addResult disk_addResult configuration_failure_def)

lemma config_read_fault:
  assumes "fs_writeFile w (disk s) configPath
             (JSON_stringify w (JObject [(ascii ''geminiApiKey'', JString key)])) = Inr d1"
    and "fs_readFile w d1 configPath = Inl e"
  shows "results (testConfigurationHandlingWith key w s) =
           results s @ [config_written, configuration_failure e]"
    and "disk (testConfigurationHandlingWith key w s) = d1"
  using assms
  by (simp_all add: testConfigurationHandlingWith_def configuration_try_def Let_def
        results_addResult disk_addResult configuration_failure_def config_written_def)

lemma config_parse_fault:
  assumes "fs_writeFile w (disk s) configPath
             (JSON_stringify w (JObject [(ascii ''geminiApiKey'', JString key)])) = Inr d1"
    and "fs_readFile w d1 configPath = Inr text"
    and "JSON_parse w text = Inl m"
  shows "results (testConfigurationHandlingWith key w s) =
           results s @ [config_written, configuration_failure (SyntaxError m)]"
    and "disk (testConfigurationHandlingWith key w s) = d1"
  using assms
  by (simp_all add: testConfigurationHandlingWith_def configuration_try_def Let_def
        results_addResult disk_addResult configuration_failure_def config_written_def)

lemma config_prop_fault:
  assumes "fs_writeFile w (disk s) configPath
             (JSON_stringify w (JObject [(ascii ''geminiApiKey'', JString key)])) = Inr d1"
    and "fs_readFile w d1 configPath = Inr text"
    and "JSON_parse w text = Inr pc"
    and "get_prop (Some pc) (ascii ''geminiApiKey'') = Inl e"
  shows "results (testConfigurationHandlingWith key w s) =
           results s @ [config_written, configuration_failure e]"
    and "disk (testConfigurationHandlingWith key w s) = d1"
  using assms
  by (simp_all add: testConfigurationHandlingWith_def configuration_try_def Let_def
        results_addResult disk_addResult configuration_failure_def config_written_def)

lemma config_unlink_fault:
  assumes "fs_writeFile w (disk s) configPath
             (JSON_stringify w (JObject [(ascii ''geminiApiKey'', JString key)])) = Inr d1"
    and "fs_readFile w d1 configPath = Inr text"
    and "JSON_parse w text = Inr pc"
    and "get_prop (Some pc) (ascii ''geminiApiKey'') = Inr v"
    and "fs_unlink w d1 configPath = Inl e"
  shows "results (testConfigurationHandlingWith key w s) =
           results s @ [config_written, config_read_result (v = Some (JString key)),
                        configuration_failure e]"
    and "disk (testConfigurationHandlingWith key w s) = d1"
  using assms
  by (simp_all add: testConfigurationHandlingWith_def configuration_try_def Let_def
        results_addResult disk_addResult configuration_failure_def config_written_def
        config_read_result_def)

lemma config_completes:
  assumes "fs_writeFile w (disk s) configPath
             (JSON_stringify w (JObject [(ascii ''geminiApiKey'', JString key)])) = Inr d1"
    and "fs_readFile w d1 configPath = Inr text"
    and "JSON_parse w text = Inr pc"
    and "get_prop (Some pc) (ascii ''geminiApiKey'') = Inr v"
    and "fs_unlink w d1 configPath = Inr d3"
  shows "results (testConfigurationHandlingWith key w s) =
           results s @ [config_written, config_read_result (v = Some (JString key)),
                        config_cleaned_up]"
    and "disk (testConfigurationHandlingWith key w s) = d3"
  using assms
  by (simp_all add: testConfigurationHandlingWith_def configuration_try_def Let_def
        results_addResult disk_addResult config_cleaned_up_def config_written_def
        config_read_result_def)

text \<open>Every run of the check takes one of the six paths.\<close>

lemma config_paths:
  fixes key w s
  defines "text0 \<equiv> JSON_stringify w (JObject [(ascii ''geminiApiKey'', JString key)])"
  defines "s' \<equiv> testConfigurationHandlingWith key w s"
  shows "(\<exists>e. fs_writeFile w (disk s) configPath text0 = Inl e \<and>
              results s' = results s @ [configuration_failure e] \<and> disk s' = disk s) \<or>
         (\<exists>d1 e. fs_writeFile w (disk s) configPath text0 = Inr d1 \<and>
              results s' = results s @ [config_written, configuration_failure e] \<and>
              disk s' = d1) \<or>
         (\<exists>d1 ok e. fs_writeFile w (disk s) configPath text0 = Inr d1 \<and>
              fs_unlink w d1 configPath = Inl e \<and>
              results s' = results s @ [config_written, config_read_result ok,
                                        configuration_failure e] \<and>
              disk s' = d1) \<or>
         (\<exists>d1 ok d3. fs_writeFile w (disk s) configPath text0 = Inr d1 \<and>
              fs_unlink w d1 configPath = Inr d3 \<and>
              results s' = results s @ [config_written, config_read_result ok,
                                        config_cleaned_up] \<and>
              disk s' = d3)"
proof (cases "fs_writeFile w (disk s) configPath text0")
  case (Inl e)
  then show ?thesis
    using config_write_fault [of w s key e] by (auto simp: text0_def s'_def)
next
  case wr: (Inr d1)
  show ?thesis
  proof (cases "fs_readFile w d1 configPath")
    case (Inl e)
    then show ?thesis
      using config_read_fault [of w s key d1 e] wr by (auto simp: text0_def s'_def)
  next
    case rd: (Inr cfg)
    show ?thesis
    proof (cases "JSON_parse w cfg")
      case (Inl m)
      then show ?thesis
        using config_parse_fault [of w s key d1 cfg m] wr rd by (auto simp: text0_def s'_def)
    next
      case pa: (Inr pc)
      show ?thesis
      proof (cases "get_prop (Some pc) (ascii ''geminiApiKey'')")
        case (Inl e)
        then show ?thesis
          using config_prop_fault [of w s key d1 cfg pc e] wr rd pa
          by (auto simp: text0_def s'_def)
      next
        case gp: (Inr v)
        show ?thesis
        proof (cases "fs_unlink w d1 configPath")
          case (Inl e)
          then show ?thesis
            using config_unlink_fault [of w s key d1 cfg pc v e] wr rd pa gp
            by (auto simp: text0_def s'_def)
        next
          case (Inr d3)
          then show ?thesis
            using config_completes [of w s key d1 cfg pc v d3] wr rd pa gp
            by (auto simp: text0_def s'_def)
        qed
      qed
    qed
  qed
qed

subsection \<open>The sample project\<close>

lemma sample_world_fields:
  "io_fault sample_world op p = None"
  "JSON_parse sample_world = sample_parse"
  "JSON_stringify sample_world v = sample_config_text"
  "disk0 sample_world = sample_disk"
  by (simp_all add: sample_world_def)

lemma sample_world_build:
  "d (ascii ''package.json'') \<noteq> None \<Longrightarrow>
     npm_run_build sample_world d = (Close (Some 0) [] [], d(ascii ''dist'' \<mapsto> Dir))"
  "d (ascii ''package.json'') = None \<Longrightarrow>
     npm_run_build sample_world d = (Close (Some 254) [] [sample_npm_error], d)"
  by (auto simp: sample_world_def)

lemma sample_disk_values:
  "sample_disk (ascii ''package.json'') = Some (File sample_manifest_text)"
  "sample_disk (ascii ''tsconfig.json'') = Some (File (ascii ''{}''))"
  "sample_disk (ascii ''src/index.ts'') = Some (File sample_source)"
  "sample_disk (ascii ''README.md'') = Some (File (ascii ''nano-banana''))"
  "sample_disk (ascii ''.gitignore'') = Some (File (ascii ''node_modules''))"
  "sample_disk (ascii ''.eslintrc.json'') = Some (File (ascii ''{}''))"
  "sample_disk (ascii ''node_modules'') = Some Dir"
  "sample_disk (ascii ''dist'') = None"
  "sample_disk configPath = None"
  by (simp_all add: sample_disk_def configPath_def ascii_eq_iff)

lemma sample_parse_values:
  "sample_parse sample_manifest_text = Inr sample_manifest"
  "sample_parse sample_config_text = Inr sample_config"
  by (simp_all add: sample_parse_def sample_manifest_text_def sample_config_text_def
        ascii_eq_iff)

lemma sample_config_text_roundtrip: "utf8_roundtrip sample_config_text = sample_config_text"
  by (simp add: sample_config_text_def utf8_roundtrip_ascii)

lemma sample_structure:
  assumes "\<forall>f\<in>set requiredFiles. disk s f \<noteq> None"
  shows "results (testProjectStructure sample_world s) =
           results s @ map (\<lambda>f. structure_result f True) requiredFiles"
proof -
  have "fs_access sample_world (disk s) f = None" if "f \<in> set requiredFiles" for f
    using that assms by (auto simp: fs_access_def sample_world_fields)
  then show ?thesis
    by (simp add: results_testProjectStructure)
qed

lemma sample_dependencies:
  assumes "disk s (ascii ''package.json'') = Some (File sample_manifest_text)"
    and "disk s (ascii ''node_modules'') = Some Dir"
  shows "results (testDependencies sample_world s) =
           results s @ map (\<lambda>dep. dependency_result dep True) requiredDeps @
           [node_modules_result True]"
proof -
  let ?kvs = "[(ascii ''@modelcontextprotocol/sdk'', JString (ascii ''^1.0.0'')),
               (ascii ''@google/generative-ai'', JString (ascii ''^0.21.0'')),
               (ascii ''dotenv'', JString (ascii ''^16.4.5'')),
               (ascii ''zod'', JString (ascii ''^3.23.8''))]"
  have rd: "fs_readFile sample_world (disk s) (ascii ''package.json'') = Inr sample_manifest_text"
    using assms(1) by (simp add: fs_readFile_def sample_world_fields)
  have pa: "JSON_parse sample_world sample_manifest_text = Inr sample_manifest"
    by (simp add: sample_world_fields sample_parse_values)
  have gp: "get_prop (Some sample_manifest) (ascii ''dependencies'') = Inr (Some (JObject ?kvs))"
    by (simp add: sample_manifest_def ascii_eq_iff)
  have ac: "fs_access sample_world (disk s) (ascii ''node_modules'') = None"
    using assms(2) by (simp add: fs_access_def sample_world_fields)
  have tr: "map (\<lambda>dep. dependency_result dep (truthy (map_of ?kvs dep))) requiredDeps =
            map (\<lambda>dep. dependency_result dep True) requiredDeps"
    by (simp add: requiredDeps_def ascii_eq_iff) (simp add: ascii_def)
  show ?thesis
    using results_testDependencies_object [OF rd pa gp] ac tr by simp
qed

lemma sample_build:
  assumes "disk s (ascii ''package.json'') \<noteq> None"
  shows "testBuildProcess sample_world s =
     Resolved (s\<lparr>results := results s @ [build_success],
                 disk := (disk s)(ascii ''dist'' \<mapsto> Dir)\<rparr>)"
  using assms
  by (simp add: testBuildProcess_def sample_world_build(1) [of "disk s"] sample_world_fields
        on_close_def fs_access_def addResult_def build_success_def)

lemma sample_build_no_manifest:
  assumes "disk s (ascii ''package.json'') = None"
  shows "testBuildProcess sample_world s =
     Resolved (s\<lparr>results := results s @ [build_failure sample_npm_error]\<rparr>)"
  using assms
  by (simp add: testBuildProcess_def sample_world_build(2) [of "disk s"] on_close_def
        addResult_def build_failure_def)

lemma sample_configuration:
  assumes "disk s configPath = None"
  shows "results (testConfigurationHandling sample_world s) =
           results s @ [config_written, config_read_result True, config_cleaned_up]"
    and "disk (testConfigurationHandling sample_world s) = disk s"
proof -
  let ?key = "ascii ''test-api-key-for-integration-testing''"
  let ?d1 = "(disk s)(configPath \<mapsto> File sample_config_text)"
  have wr: "fs_writeFile sample_world (disk s) configPath
              (JSON_stringify sample_world (JObject [(ascii ''geminiApiKey'', JString ?key)])) =
            Inr ?d1"
    using assms
    by (simp add: fs_writeFile_def sample_world_fields sample_config_text_roundtrip)
  have rd: "fs_readFile sample_world ?d1 configPath = Inr sample_config_text"
    by (simp add: fs_readFile_def sample_world_fields)
  have pa: "JSON_parse sample_world sample_config_text = Inr sample_config"
    by (simp add: sample_world_fields sample_parse_values)
  have gp: "get_prop (Some sample_config) (ascii ''geminiApiKey'') = Inr (Some (JString ?key))"
    by (simp add: sample_config_def)
  have ul: "fs_unlink sample_world ?d1 configPath = Inr (disk s)"
    using assms by (simp add: fs_unlink_def sample_world_fields fun_upd_idem)
  show "results (testConfigurationHandling sample_world s) =
           results s @ [config_written, config_read_result True, config_cleaned_up]"
    using config_completes(1) [OF wr rd pa gp ul] by (simp add: testConfigurationHandling_def)
  show "disk (testConfigurationHandling sample_world s) = disk s"
    using config_completes(2) [OF wr rd pa gp ul] by (simp add: testConfigurationHandling_def)
qed

lemma sample_source_elements:
  "map (\<lambda>el. element_result el (js_includes sample_source el)) requiredElements =
   map (\<lambda>el. element_result el True) requiredElements"
  "hasMimeTypeLogic sample_source"
  by (simp_all add: requiredElements_def hasMimeTypeLogic_def sample_source_def
        js_includes_ascii)

lemma sample_schema:
  assumes "disk s (ascii ''src/index.ts'') = Some (File sample_source)"
  shows "results (testToolSchema sample_world s) =
           results s @ map (\<lambda>el. element_result el True) requiredElements @
           [mime_result sample_source]"
proof -
  have rd: "fs_readFile sample_world (disk s) (ascii ''src/index.ts'') = Inr sample_source"
    using assms by (simp add: fs_readFile_def sample_world_fields)
  show ?thesis
    using results_testToolSchema_read [OF rd] by (simp add: sample_source_elements)
qed

lemma sample_log_passed: "\<forall>r\<in>set sample_log. passed r"
  by (auto simp: sample_log_def structure_result_def dependency_result_def
        node_modules_result_def build_success_def config_written_def config_read_result_def
        config_cleaned_up_def element_result_def mime_result_def sample_source_elements)

lemma sample_run:
  "reported (runAllTests sample_world)"
  "result_log (runAllTests sample_world) = sample_log"
  "exit_code (runAllTests sample_world) = Some 0"
proof -
  define s0 where "s0 = \<lparr>results = [], disk = sample_disk\<rparr>"
  define s1 where "s1 = testProjectStructure sample_world s0"
  define s2 where "s2 = testDependencies sample_world s1"
  define s3 where "s3 = s2\<lparr>results := results s2 @ [build_success],
                           disk := (disk s2)(ascii ''dist'' \<mapsto> Dir)\<rparr>"
  define s4 where "s4 = testConfigurationHandling sample_world s3"
  define s5 where "s5 = testToolSchema sample_world s4"
  have d0: "disk s0 = sample_disk" by (simp add: s0_def)
  have d1: "disk s1 = sample_disk" by (simp add: s1_def disk_testProjectStructure d0)
  have d2: "disk s2 = sample_disk" by (simp add: s2_def disk_testDependencies d1)
  have d3: "disk s3 = sample_disk(ascii ''dist'' \<mapsto> Dir)" by (simp add: s3_def d2)
  have ne: "configPath \<noteq> ascii ''dist''"
    by (simp add: configPath_def ascii_eq_iff)
  have c3: "disk s3 configPath = None"
    by (simp add: d3 sample_disk_values ne)
  have d4: "disk s4 = sample_disk(ascii ''dist'' \<mapsto> Dir)"
    using sample_configuration(2) [OF c3] by (simp add: s4_def d3)
  have r1: "results s1 = map (\<lambda>f. structure_result f True) requiredFiles"
    unfolding s1_def
    by (subst sample_structure)
       (auto simp: s0_def requiredFiles_def sample_disk_values)
  have r2: "results s2 = results s1 @ map (\<lambda>dep. dependency_result dep True) requiredDeps @
              [node_modules_result True]"
    unfolding s2_def by (rule sample_dependencies) (simp_all add: d1 sample_disk_values)
  have r4: "results s4 = results s3 @ [config_written, config_read_result True, config_cleaned_up]"
    unfolding s4_def by (rule sample_configuration(1) [OF c3])
  have r5: "results s5 = results s4 @ map (\<lambda>el. element_result el True) requiredElements @
              [mime_result sample_source]"
    unfolding s5_def
    by (rule sample_schema) (simp add: d4 sample_disk_values ascii_eq_iff)
  have log: "results s5 = sample_log"
    by (simp add: r5 r4 s3_def r2 r1 sample_log_def)
  have b: "testBuildProcess sample_world s2 = Resolved s3"
    unfolding s3_def by (rule sample_build) (simp add: d2 sample_disk_values)
  have run: "runAllTests sample_world = Reported (printResults (results s5)) s5"
    using b
    by (simp add: runAllTests_def Let_def sample_world_fields
          s0_def [symmetric] s1_def [symmetric] s2_def [symmetric]
          s4_def [symmetric] s5_def [symmetric])
  have pr: "printResults (results s5) = 0"
    by (simp add: printResults_zero log sample_log_passed)
  show "reported (runAllTests sample_world)" by (simp add: run)
  show "result_log (runAllTests sample_world) = sample_log"
    by (simp add: run result_log_def log)
  show "exit_code (runAllTests sample_world) = Some 0" by (simp add: run pr)
qed

section \<open>The claims\<close>

subsection \<open>The build check\<close>

text \<open>
  C6. When the build subprocess closes, \<open>testBuildProcess\<close> resolves having appended
  exactly one Result, named \<^verbatim>\<open>Build process\<close>: passing when the exit code is 0 and
  \<^verbatim>\<open>fs.access\<close> finds \<^verbatim>\<open>dist\<close>; failing with the message about the directory
  not being created when the code is 0 and \<^verbatim>\<open>dist\<close> is not found, a message no
  build-failure message equals; failing with \<^verbatim>\<open>Build failed:\<close> followed by the
  captured stderr text for any other exit code.
\<close>

theorem build_result_cases:
  assumes "npm_run_build w (disk s) = (Close code out err, d)"
  shows "\<exists>r s'. testBuildProcess w s = Resolved s' \<and>
           results s' = results s @ [r] \<and> disk s' = d \<and>
           name r = ascii ''Build process'' \<and>
           (code = Some 0 \<and> fs_access w d (ascii ''dist'') = None \<longrightarrow> passed r) \<and>
           (code = Some 0 \<and> fs_access w d (ascii ''dist'') \<noteq> None \<longrightarrow>
              \<not> passed r \<and>
              message r = CROSS_MARK @ ascii '' Dist directory not created'' \<and>
              (\<forall>e. message r \<noteq> CROSS_MARK @ ascii '' Build failed: '' @ e)) \<and>
           (code \<noteq> Some 0 \<longrightarrow>
              \<not> passed r \<and>
              message r = CROSS_MARK @ ascii '' Build failed: '' @ concat err \<and>
              js_includes (message r) (concat err))"
proof -
  have neq: "CROSS_MARK @ ascii '' Dist directory not created'' \<noteq>
             CROSS_MARK @ ascii '' Build failed: '' @ e" for e
    by (simp add: ascii_def)
  have inc: "js_includes (CROSS_MARK @ ascii '' Build failed: '' @ concat err) (concat err)"
    using js_includes_append [of "CROSS_MARK @ ascii '' Build failed: ''" "concat err"] by simp
  show ?thesis
    using assms neq inc
    by (cases "fs_access w d (ascii ''dist'')")
       (simp_all add: testBuildProcess_def on_close_def addResult_def)
qed

theorem build_result_cases_witness:
  "(\<exists>r s'. testBuildProcess sample_world \<lparr>results = [], disk = sample_disk\<rparr> = Resolved s' \<and>
      results s' = [r] \<and> name r = ascii ''Build process'' \<and> passed r) \<and>
   (\<exists>r s'. testBuildProcess (sample_world\<lparr>npm_run_build := (\<lambda>d. (Close (Some 0) [] [], d))\<rparr>)
               \<lparr>results = [], disk = sample_disk\<rparr> = Resolved s' \<and>
      results s' = [r] \<and> \<not> passed r \<and>
      message r = CROSS_MARK @ ascii '' Dist directory not created'') \<and>
   (\<exists>r s'. testBuildProcess sample_world
               \<lparr>results = [], disk = sample_disk(ascii ''package.json'' := None)\<rparr> =
             Resolved s' \<and>
      results s' = [r] \<and> \<not> passed r \<and>
      message r = CROSS_MARK @ ascii '' Build failed: '' @ sample_npm_error)"
proof -
  let ?s = "\<lparr>results = [], disk = sample_disk\<rparr>"
  let ?w = "sample_world\<lparr>npm_run_build := (\<lambda>d. (Close (Some 0) [] [], d))\<rparr>"
  let ?t = "\<lparr>results = [], disk = sample_disk(ascii ''package.json'' := None)\<rparr>"
  have h: "npm_run_build sample_world (disk ?s) =
           (Close (Some 0) [] [], sample_disk(ascii ''dist'' \<mapsto> Dir))"
    by (simp add: sample_world_build sample_disk_values)
  have a: "fs_access sample_world (sample_disk(ascii ''dist'' \<mapsto> Dir)) (ascii ''dist'') = None"
    by (simp add: fs_access_def sample_world_fields)
  have 1: "\<exists>r s'. testBuildProcess sample_world ?s = Resolved s' \<and>
      results s' = [r] \<and> name r = ascii ''Build process'' \<and> passed r"
    using build_result_cases [OF h] a by auto
  have h2: "npm_run_build ?w (disk ?s) = (Close (Some 0) [] [], sample_disk)"
    by simp
  have a2: "fs_access ?w sample_disk (ascii ''dist'') \<noteq> None"
    by (rule fs_access_absent) (simp add: sample_disk_values)
  have 2: "\<exists>r s'. testBuildProcess ?w ?s = Resolved s' \<and>
      results s' = [r] \<and> \<not> passed r \<and>
      message r = CROSS_MARK @ ascii '' Dist directory not created''"
    using build_result_cases [OF h2] a2 by auto
  have h3: "npm_run_build sample_world (disk ?t) =
            (Close (Some 254) [] [sample_npm_error], sample_disk(ascii ''package.json'' := None))"
    by (simp add: sample_world_build)
  have 3: "\<exists>r s'. testBuildProcess sample_world ?t = Resolved s' \<and>
      results s' = [r] \<and> \<not> passed r \<and>
      message r = CROSS_MARK @ ascii '' Build failed: '' @ sample_npm_error"
    using build_result_cases [OF h3] by auto
  from 1 2 3 show ?thesis by blast
qed

subsection \<open>The dependency check\<close>

lemma results_testDependencies_fault:
  assumes "fs_readFile w (disk s) (ascii ''package.json'') = Inl e \<or>
           (\<exists>content m. fs_readFile w (disk s) (ascii ''package.json'') = Inr content \<and>
              JSON_parse w content = Inl m \<and> e = SyntaxError m) \<or>
           (\<exists>content pj. fs_readFile w (disk s) (ascii ''package.json'') = Inr content \<and>
              JSON_parse w content = Inr pj \<and>
              (get_prop (Some pj) (ascii ''dependencies'') = Inl e \<or>
               (\<exists>dv. get_prop (Some pj) (ascii ''dependencies'') = Inr dv \<and>
                  get_prop dv (ascii ''@modelcontextprotocol/sdk'') = Inl e)))"
  shows "results (testDependencies w s) = results s @ [dependencies_failure e]"
  using assms
  by (auto simp: testDependencies_def dependencies_try_def requiredDeps_def
        results_addResult dependencies_failure_def)

subsection \<open>The dependency loop\<close>

lemma get_prop_defined:
  "v \<noteq> JNull \<Longrightarrow> get_prop (Some v) k = Inr (projr (get_prop (Some v) k))"
  by (cases v) simp_all

lemma check_deps_defined:
  assumes "get_prop (Some pj) (ascii ''dependencies'') = Inr (Some v)" and "v \<noteq> JNull"
  shows "\<exists>s'. check_deps pj deps s = Inr s' \<and> disk s' = disk s \<and>
           results s' = results s @
             map (\<lambda>dep. dependency_result dep (truthy (projr (get_prop (Some v) dep)))) deps"
proof (induction deps arbitrary: s)
  case Nil
  show ?case by simp
next
  case (Cons dep deps)
  let ?ok = "truthy (projr (get_prop (Some v) dep))"
  let ?s1 = "if ?ok
             then addResult (ascii ''Dependencies - '' @ dep) True
                    (CHECK_MARK @ ascii '' '' @ dep @ ascii '' found'') s
             else addResult (ascii ''Dependencies - '' @ dep) False
                    (CROSS_MARK @ ascii '' '' @ dep @ ascii '' missing'') s"
  obtain s' where s': "check_deps pj deps ?s1 = Inr s'" "disk s' = disk ?s1"
    "results s' = results ?s1 @
       map (\<lambda>dep. dependency_result dep (truthy (projr (get_prop (Some v) dep)))) deps"
    using Cons.IH [of ?s1] by blast
  have gp: "get_prop (Some v) dep = Inr (projr (get_prop (Some v) dep))"
    by (rule get_prop_defined [OF assms(2)])
  have step: "check_deps pj (dep # deps) s = check_deps pj deps ?s1"
    by (subst check_deps.simps(2), subst assms(1), simp only: sum.case, subst gp,
        simp only: sum.case)
  have "check_deps pj (dep # deps) s = Inr s'"
    using step s'(1) by simp
  moreover have "disk s' = disk s"
    using s'(2) by (simp add: disk_addResult)
  moreover have "results s' = results s @
      map (\<lambda>dep. dependency_result dep (truthy (projr (get_prop (Some v) dep)))) (dep # deps)"
    using s'(3) by (simp add: results_addResult dependency_result_def)
  ultimately show ?case by blast
qed

lemma results_testDependencies_defined:
  assumes "fs_readFile w (disk s) (ascii ''package.json'') = Inr content"
    and "JSON_parse w content = Inr pj"
    and "get_prop (Some pj) (ascii ''dependencies'') = Inr (Some v)" and "v \<noteq> JNull"
  shows "results (testDependencies w s) =
           results s @
           map (\<lambda>dep. dependency_result dep (truthy (projr (get_prop (Some v) dep)))) requiredDeps @
           [node_modules_result (fs_access w (disk s) (ascii ''node_modules'') = None)]"
proof -
  from check_deps_defined [OF assms(3,4), of requiredDeps s]
  obtain s' where s': "check_deps pj requiredDeps s = Inr s'" "disk s' = disk s"
    "results s' = results s @
       map (\<lambda>dep. dependency_result dep (truthy (projr (get_prop (Some v) dep)))) requiredDeps"
    by blast
  show ?thesis
    using assms(1,2) s'
    by (simp add: testDependencies_def dependencies_try_def check_node_modules_def
          results_addResult node_modules_result_def split: option.splits)
qed

text \<open>The check ends in one of two ways: the aggregate failure alone, or all five results.\<close>

lemma testDependencies_shape:
  "(\<exists>e. results (testDependencies w s) = results s @ [dependencies_failure e]) \<or>
   (\<exists>found ok.
      results (testDependencies w s) =
        results s @ map (\<lambda>dep. dependency_result dep (found dep)) requiredDeps @
        [node_modules_result ok])"
proof (cases "fs_readFile w (disk s) (ascii ''package.json'')")
  case (Inl e)
  then show ?thesis
    using results_testDependencies_fault [of w s e] by blast
next
  case rd: (Inr content)
  show ?thesis
  proof (cases "JSON_parse w content")
    case (Inl m)
    then show ?thesis
      using results_testDependencies_fault [of w s "SyntaxError m"] rd by blast
  next
    case pa: (Inr pj)
    show ?thesis
    proof (cases "get_prop (Some pj) (ascii ''dependencies'')")
      case (Inl e)
      then show ?thesis
        using results_testDependencies_fault [of w s e] rd pa by blast
    next
      case gp: (Inr dv)
      show ?thesis
      proof (cases "dv = None \<or> dv = Some JNull")
        case True
        then obtain e where "get_prop dv (ascii ''@modelcontextprotocol/sdk'') = Inl e"
          by auto
        then show ?thesis
          using results_testDependencies_fault [of w s e] rd pa gp by blast
      next
        case False
        then obtain v where v: "dv = Some v" "v \<noteq> JNull" by auto
        have "get_prop (Some pj) (ascii ''dependencies'') = Inr (Some v)"
          using gp v(1) by simp
        from results_testDependencies_defined [OF rd pa this v(2)]
        show ?thesis
          by (intro disjI2 exI [of _ "\<lambda>dep. truthy (projr (get_prop (Some v) dep))"]
                exI [of _ "fs_access w (disk s) (ascii ''node_modules'') = None"])
      qed
    qed
  qed
qed

subsection \<open>The manifest that cannot be used\<close>

text \<open>
  C5. When \<^verbatim>\<open>package.json\<close> cannot be read, or its text does not parse, or the parsed
  value has no usable \<^verbatim>\<open>dependencies\<close> (reading the property throws, or it is
  \<^verbatim>\<open>undefined\<close> or \<^verbatim>\<open>null\<close>, so that the read of the first package name
  throws), \<open>testDependencies\<close> appends exactly one Result: the failing
  \<^verbatim>\<open>Dependencies check\<close> with the text of the error. No Result for a package and
  none for \<^verbatim>\<open>node_modules\<close> is appended.
\<close>

theorem manifest_fault_single_result:
  assumes "fs_readFile w (disk s) (ascii ''package.json'') = Inl e \<or>
           (\<exists>content m. fs_readFile w (disk s) (ascii ''package.json'') = Inr content \<and>
              JSON_parse w content = Inl m \<and> e = SyntaxError m) \<or>
           (\<exists>content pj. fs_readFile w (disk s) (ascii ''package.json'') = Inr content \<and>
              JSON_parse w content = Inr pj \<and>
              (get_prop (Some pj) (ascii ''dependencies'') = Inl e \<or>
               (\<exists>dv. get_prop (Some pj) (ascii ''dependencies'') = Inr dv \<and>
                  get_prop dv (ascii ''@modelcontextprotocol/sdk'') = Inl e)))"
  shows "results (testDependencies w s) = results s @ [dependencies_failure e] \<and>
         \<not> passed (dependencies_failure e) \<and>
         message (dependencies_failure e) =
           CROSS_MARK @ ascii '' Failed to check dependencies: '' @ error_toString e"
  using results_testDependencies_fault [OF assms] by (simp add: dependencies_failure_def)

theorem manifest_fault_single_result_witness:
  "results (testDependencies bare_manifest_world
              \<lparr>results = [], disk = disk0 bare_manifest_world\<rparr>) =
     [dependencies_failure
        (TypeError (ascii ''Cannot read properties of undefined (reading '' @ [0x27] @
                    ascii ''@modelcontextprotocol/sdk'' @ [0x27] @ ascii '')''))] \<and>
   results (testDependencies sample_world
              \<lparr>results = [], disk = sample_disk(ascii ''package.json'' := None)\<rparr>) =
     [dependencies_failure
        (system_error ''ENOENT: no such file or directory'' ''open'' (ascii ''package.json''))] \<and>
   results (testDependencies sample_world
              \<lparr>results = [],
                 disk = sample_disk(ascii ''package.json'' \<mapsto> File (ascii ''{''))\<rparr>) =
     [dependencies_failure (SyntaxError (ascii ''Unexpected token''))]"
proof -
  let ?s = "\<lparr>results = [], disk = disk0 bare_manifest_world\<rparr>"
  let ?e = "TypeError (ascii ''Cannot read properties of undefined (reading '' @ [0x27] @
                       ascii ''@modelcontextprotocol/sdk'' @ [0x27] @ ascii '')'')"
  have rd: "fs_readFile bare_manifest_world (disk ?s) (ascii ''package.json'') =
            Inr bare_manifest_text"
    by (simp add: fs_readFile_def bare_manifest_world_def sample_world_def)
  have pa: "JSON_parse bare_manifest_world bare_manifest_text = Inr bare_manifest"
    by (simp add: bare_manifest_world_def sample_world_def)
  have g1: "get_prop (Some bare_manifest) (ascii ''dependencies'') = Inr None"
    by (simp add: bare_manifest_def ascii_eq_iff)
  have g2: "get_prop None (ascii ''@modelcontextprotocol/sdk'') = Inl ?e"
    by simp
  from rd pa g1 g2 have
    "fs_readFile bare_manifest_world (disk ?s) (ascii ''package.json'') = Inl ?e \<or>
     (\<exists>content m. fs_readFile bare_manifest_world (disk ?s) (ascii ''package.json'') = Inr content \<and>
        JSON_parse bare_manifest_world content = Inl m \<and> ?e = SyntaxError m) \<or>
     (\<exists>content pj. fs_readFile bare_manifest_world (disk ?s) (ascii ''package.json'') = Inr content \<and>
        JSON_parse bare_manifest_world content = Inr pj \<and>
        (get_prop (Some pj) (ascii ''dependencies'') = Inl ?e \<or>
         (\<exists>dv. get_prop (Some pj) (ascii ''dependencies'') = Inr dv \<and>
            get_prop dv (ascii ''@modelcontextprotocol/sdk'') = Inl ?e)))"
    by blast
  from manifest_fault_single_result [OF this]
  have 1: "results (testDependencies bare_manifest_world ?s) = [dependencies_failure ?e]"
    by simp
  let ?t = "\<lparr>results = [], disk = sample_disk(ascii ''package.json'' := None)\<rparr>"
  let ?e2 = "system_error ''ENOENT: no such file or directory'' ''open'' (ascii ''package.json'')"
  have "fs_readFile sample_world (disk ?t) (ascii ''package.json'') = Inl ?e2"
    by (simp add: fs_readFile_def sample_world_fields)
  then have 2: "results (testDependencies sample_world ?t) = [dependencies_failure ?e2]"
    using manifest_fault_single_result [of sample_world ?t ?e2] by simp
  let ?u = "\<lparr>results = [], disk = sample_disk(ascii ''package.json'' \<mapsto> File (ascii ''{''))\<rparr>"
  have "fs_readFile sample_world (disk ?u) (ascii ''package.json'') = Inr (ascii ''{'')"
    by (simp add: fs_readFile_def sample_world_fields)
  moreover have "JSON_parse sample_world (ascii ''{'') = Inl (ascii ''Unexpected token'')"
    by (simp add: sample_world_fields sample_parse_def sample_manifest_text_def
          sample_config_text_def ascii_eq_iff)
  ultimately have 3: "results (testDependencies sample_world ?u) =
      [dependencies_failure (SyntaxError (ascii ''Unexpected token''))]"
    using manifest_fault_single_result
      [of sample_world ?u "SyntaxError (ascii ''Unexpected token'')"]
    by simp
  from 1 2 3 show ?thesis by simp
qed

subsection \<open>The evidence of MIME type handling\<close>

text \<open>
  C9. When the source text is read, \<open>testToolSchema\<close> appends one Result per required
  identifier and then the single Result named \<^verbatim>\<open>MIME type handling\<close>. That Result
  passes exactly when the text contains \<^verbatim>\<open>getMimeType\<close>, or \<^verbatim>\<open>image/jpeg\<close>,
  or \<^verbatim>\<open>image/png\<close>, as a contiguous substring; no Result for an identifier bears
  its name.
\<close>

theorem mime_result_iff:
  assumes "fs_readFile w (disk s) (ascii ''src/index.ts'') = Inr sourceCode"
  shows "results (testToolSchema w s) =
           results s @
           map (\<lambda>element. element_result element (js_includes sourceCode element))
             requiredElements @
           [mime_result sourceCode] \<and>
         name (mime_result sourceCode) = ascii ''MIME type handling'' \<and>
         passed (mime_result sourceCode) =
           (sublist (ascii ''getMimeType'') sourceCode \<or>
            sublist (ascii ''image/jpeg'') sourceCode \<or>
            sublist (ascii ''image/png'') sourceCode) \<and>
         (\<forall>element ok. name (element_result element ok) \<noteq> ascii ''MIME type handling'')"
proof -
  have "name (element_result element ok) \<noteq> ascii ''MIME type handling''" for element ok
    by (simp add: element_result_def ascii_def)
  then show ?thesis
    using results_testToolSchema_read [OF assms]
    by (simp add: mime_result_def hasMimeTypeLogic_def js_includes_iff_sublist)
qed

theorem mime_result_iff_witness:
  "results (testToolSchema sample_world \<lparr>results = [], disk = sample_disk\<rparr>) =
     map (\<lambda>element. element_result element True) requiredElements @ [mime_result sample_source] \<and>
   passed (mime_result sample_source) \<and>
   sublist (ascii ''getMimeType'') sample_source"
proof -
  have rd: "fs_readFile sample_world (disk \<lparr>results = [], disk = sample_disk\<rparr>)
              (ascii ''src/index.ts'') = Inr sample_source"
    by (simp add: fs_readFile_def sample_world_fields sample_disk_values)
  have "js_includes sample_source (ascii ''getMimeType'')"
    by (simp add: sample_source_def js_includes_ascii)
  then have "sublist (ascii ''getMimeType'') sample_source"
    by (simp add: js_includes_iff_sublist)
  then show ?thesis
    using mime_result_iff [OF rd] by (simp add: sample_source_elements)
qed

subsection \<open>The cleanup result\<close>

lemma cleanup_names:
  "name (structure_result file ok) \<noteq> ascii ''Configuration - Cleanup''"
  "name (dependency_result dep ok) \<noteq> ascii ''Configuration - Cleanup''"
  "name (node_modules_result ok) \<noteq> ascii ''Configuration - Cleanup''"
  "name (dependencies_failure e) \<noteq> ascii ''Configuration - Cleanup''"
  "name (config_read_result ok) \<noteq> ascii ''Configuration - Cleanup''"
  "name config_written \<noteq> ascii ''Configuration - Cleanup''"
  "name (configuration_failure e) \<noteq> ascii ''Configuration - Cleanup''"
  "name (element_result element ok) \<noteq> ascii ''Configuration - Cleanup''"
  "name (mime_result src) \<noteq> ascii ''Configuration - Cleanup''"
  "name (schema_failure e) \<noteq> ascii ''Configuration - Cleanup''"
  "passed config_cleaned_up"
  by (simp_all add: structure_result_def dependency_result_def node_modules_result_def
        dependencies_failure_def config_read_result_def config_written_def
        configuration_failure_def element_result_def mime_result_def schema_failure_def
        config_cleaned_up_def ascii_def)

lemma cleanup_structure:
  assumes "\<forall>r\<in>set (results s). name r = ascii ''Configuration - Cleanup'' \<longrightarrow> passed r"
  shows "\<forall>r\<in>set (results (testProjectStructure w s)).
           name r = ascii ''Configuration - Cleanup'' \<longrightarrow> passed r"
  using assms by (auto simp: results_testProjectStructure cleanup_names)

lemma cleanup_dependencies:
  assumes "\<forall>r\<in>set (results s). name r = ascii ''Configuration - Cleanup'' \<longrightarrow> passed r"
  shows "\<forall>r\<in>set (results (testDependencies w s)).
           name r = ascii ''Configuration - Cleanup'' \<longrightarrow> passed r"
  using assms testDependencies_shape [of w s] by (auto simp: cleanup_names)

lemma cleanup_configuration:
  assumes "\<forall>r\<in>set (results s). name r = ascii ''Configuration - Cleanup'' \<longrightarrow> passed r"
  shows "\<forall>r\<in>set (results (testConfigurationHandling w s)).
           name r = ascii ''Configuration - Cleanup'' \<longrightarrow> passed r"
  using assms
    config_paths [where key = "ascii ''test-api-key-for-integration-testing''"
      and w = w and s = s]
  by (auto simp: testConfigurationHandling_def cleanup_names)

lemma cleanup_schema:
  assumes "\<forall>r\<in>set (results s). name r = ascii ''Configuration - Cleanup'' \<longrightarrow> passed r"
  shows "\<forall>r\<in>set (results (testToolSchema w s)).
           name r = ascii ''Configuration - Cleanup'' \<longrightarrow> passed r"
proof (cases "fs_readFile w (disk s) (ascii ''src/index.ts'')")
  case (Inl e)
  then show ?thesis
    using assms by (auto simp: results_testToolSchema_fault cleanup_names)
next
  case (Inr src)
  then show ?thesis
    using assms by (auto simp: results_testToolSchema_read cleanup_names)
qed

lemma cleanup_build:
  assumes "\<forall>r\<in>set (results s). name r = ascii ''Configuration - Cleanup'' \<longrightarrow> passed r"
  shows "\<forall>r\<in>set (results (case testBuildProcess w s of
                              Resolved s' \<Rightarrow> s' | Rejected e s' \<Rightarrow> s'
                            | Uncaught e s' \<Rightarrow> s' | Pending s' \<Rightarrow> s')).
           name r = ascii ''Configuration - Cleanup'' \<longrightarrow> passed r"
  using assms
  by (auto simp: testBuildProcess_def on_close_def results_addResult ascii_def
        split: prod.splits spawn_outcome.splits option.splits if_splits)

text \<open>
  C10. In the log of every run, a Result named \<^verbatim>\<open>Configuration - Cleanup\<close> has
  passed: the only call that pushes this name pushes it with \<^verbatim>\<open>true\<close>, after
  \<^verbatim>\<open>fs.unlink\<close> has returned.
\<close>

theorem cleanup_result_passed:
  "\<forall>r\<in>set (result_log (runAllTests w)).
     name r = ascii ''Configuration - Cleanup'' \<longrightarrow> passed r"
proof -
  let ?s0 = "\<lparr>results = [], disk = disk0 w\<rparr>"
  let ?s2 = "testDependencies w (testProjectStructure w ?s0)"
  have 2: "\<forall>r\<in>set (results ?s2). name r = ascii ''Configuration - Cleanup'' \<longrightarrow> passed r"
    by (rule cleanup_dependencies, rule cleanup_structure) simp
  note 3 = cleanup_build [OF 2, of w]
  show ?thesis
  proof (cases "testBuildProcess w ?s2")
    case (Resolved s3)
    with 3 have "\<forall>r\<in>set (results s3). name r = ascii ''Configuration - Cleanup'' \<longrightarrow> passed r"
      by simp
    then have "\<forall>r\<in>set (results (testToolSchema w (testConfigurationHandling w s3))).
                 name r = ascii ''Configuration - Cleanup'' \<longrightarrow> passed r"
      by (intro cleanup_schema cleanup_configuration)
    then show ?thesis
      using Resolved by (simp add: runAllTests_def Let_def result_log_def)
  next
    case (Rejected e s3)
    with 3 show ?thesis by (simp add: runAllTests_def Let_def result_log_def)
  next
    case (Uncaught e s3)
    with 3 show ?thesis by (simp add: runAllTests_def Let_def result_log_def)
  next
    case (Pending s3)
    with 3 show ?thesis by (simp add: runAllTests_def Let_def result_log_def)
  qed
qed

theorem cleanup_result_passed_witness:
  "config_cleaned_up \<in> set (result_log (runAllTests sample_world)) \<and>
   name config_cleaned_up = ascii ''Configuration - Cleanup'' \<and>
   passed config_cleaned_up"
proof -
  have m: "config_cleaned_up \<in> set (result_log (runAllTests sample_world))"
    by (simp add: sample_run(2) sample_log_def)
  have n: "name config_cleaned_up = ascii ''Configuration - Cleanup''"
    by (simp add: config_cleaned_up_def)
  from cleanup_result_passed [of sample_world] m n show ?thesis by blast
qed

subsection \<open>Faults of the configuration check\<close>

lemma refusing_world_fields:
  "io_fault (refusing_world op) op' p =
     (if op' = op \<and> p = configPath then Some (ascii ''EACCES: permission denied'') else None)"
  "JSON_parse (refusing_world op) = sample_parse"
  "JSON_stringify (refusing_world op) v = sample_config_text"
  by (simp_all add: refusing_world_def sample_world_def)

lemma refusing_write:
  "fs_writeFile (refusing_world WriteFile) sample_disk configPath sample_config_text =
     Inl (Error (ascii ''EACCES: permission denied''))"
  "fs_writeFile (refusing_world ReadFile) sample_disk configPath sample_config_text =
     Inr (sample_disk(configPath \<mapsto> File sample_config_text))"
  "fs_writeFile (refusing_world Unlink) sample_disk configPath sample_config_text =
     Inr (sample_disk(configPath \<mapsto> File sample_config_text))"
  by (simp_all add: fs_writeFile_def refusing_world_fields sample_disk_values
        sample_config_text_roundtrip)

lemma refusing_read:
  "fs_readFile (refusing_world ReadFile) (sample_disk(configPath \<mapsto> File sample_config_text))
     configPath = Inl (Error (ascii ''EACCES: permission denied''))"
  "fs_readFile (refusing_world Unlink) (sample_disk(configPath \<mapsto> File sample_config_text))
     configPath = Inr sample_config_text"
  by (simp_all add: fs_readFile_def refusing_world_fields)

lemma refusing_unlink:
  "fs_unlink (refusing_world Unlink) (sample_disk(configPath \<mapsto> File sample_config_text))
     configPath = Inl (Error (ascii ''EACCES: permission denied''))"
  by (simp add: fs_unlink_def refusing_world_fields)

lemma sample_config_key:
  "get_prop (Some sample_config) (ascii ''geminiApiKey'') =
     Inr (Some (JString (ascii ''test-api-key-for-integration-testing'')))"
  by (simp add: sample_config_def)

text \<open>
  C2, as stated, fails: when the write succeeds and the read is refused, the log holds the
  passing \<^verbatim>\<open>Configuration - Write\<close> Result followed by the aggregate failure.
\<close>

theorem partial_results_counterexample:
  "fs_readFile (refusing_world ReadFile) (sample_disk(configPath \<mapsto> File sample_config_text))
     configPath = Inl (Error (ascii ''EACCES: permission denied'')) \<and>
   results (testConfigurationHandling (refusing_world ReadFile)
              \<lparr>results = [], disk = sample_disk\<rparr>) =
     [config_written, configuration_failure (Error (ascii ''EACCES: permission denied''))] \<and>
   passed config_written \<and>
   name config_written = ascii ''Configuration - Write''"
proof -
  let ?s = "\<lparr>results = [], disk = sample_disk\<rparr>"
  have wr: "fs_writeFile (refusing_world ReadFile) (disk ?s) configPath
              (JSON_stringify (refusing_world ReadFile)
                 (JObject [(ascii ''geminiApiKey'',
                            JString (ascii ''test-api-key-for-integration-testing''))])) =
            Inr (sample_disk(configPath \<mapsto> File sample_config_text))"
    by (simp add: refusing_world_fields refusing_write)
  from config_read_fault(1) [OF wr refusing_read(1)]
  show ?thesis
    by (simp add: testConfigurationHandling_def refusing_read config_written_def)
qed

text \<open>
  C2, amended. When an operation of the file system faults, the check appends exactly one
  aggregate failing Result, \<^verbatim>\<open>Configuration handling\<close>, with the text of the fault,
  as its last Result. The Results of the steps that completed before the fault stay in the
  log before it: none when the write faults, the write Result when the read faults, the
  write and the read Results when the delete faults. No Result follows it.
\<close>

theorem config_fault_results:
  "(fs_writeFile w (disk s) configPath
      (JSON_stringify w (JObject [(ascii ''geminiApiKey'',
         JString (ascii ''test-api-key-for-integration-testing''))])) = Inl e \<longrightarrow>
    results (testConfigurationHandling w s) = results s @ [configuration_failure e]) \<and>
   (\<forall>d1. fs_writeFile w (disk s) configPath
      (JSON_stringify w (JObject [(ascii ''geminiApiKey'',
         JString (ascii ''test-api-key-for-integration-testing''))])) = Inr d1 \<and>
      fs_readFile w d1 configPath = Inl e \<longrightarrow>
    results (testConfigurationHandling w s) =
      results s @ [config_written, configuration_failure e]) \<and>
   (\<forall>d1 content parsedConfig v. fs_writeFile w (disk s) configPath
      (JSON_stringify w (JObject [(ascii ''geminiApiKey'',
         JString (ascii ''test-api-key-for-integration-testing''))])) = Inr d1 \<and>
      fs_readFile w d1 configPath = Inr content \<and>
      JSON_parse w content = Inr parsedConfig \<and>
      get_prop (Some parsedConfig) (ascii ''geminiApiKey'') = Inr v \<and>
      fs_unlink w d1 configPath = Inl e \<longrightarrow>
    results (testConfigurationHandling w s) =
      results s @
      [config_written,
       config_read_result (v = Some (JString (ascii ''test-api-key-for-integration-testing''))),
       configuration_failure e]) \<and>
   \<not> passed (configuration_failure e) \<and>
   message (configuration_failure e) =
     CROSS_MARK @ ascii '' Configuration test failed: '' @ error_toString e"
  using config_write_fault(1) [of w s "ascii ''test-api-key-for-integration-testing''" e]
    config_read_fault(1) [of w s "ascii ''test-api-key-for-integration-testing''" _ e]
    config_unlink_fault(1) [of w s "ascii ''test-api-key-for-integration-testing''" _ _ _ _ e]
  by (simp add: testConfigurationHandling_def configuration_failure_def)

theorem config_fault_results_witness:
  "results (testConfigurationHandling (refusing_world WriteFile)
              \<lparr>results = [], disk = sample_disk\<rparr>) =
     [configuration_failure (Error (ascii ''EACCES: permission denied''))] \<and>
   results (testConfigurationHandling (refusing_world ReadFile)
              \<lparr>results = [], disk = sample_disk\<rparr>) =
     [config_written, configuration_failure (Error (ascii ''EACCES: permission denied''))] \<and>
   results (testConfigurationHandling (refusing_world Unlink)
              \<lparr>results = [], disk = sample_disk\<rparr>) =
     [config_written, config_read_result True,
      configuration_failure (Error (ascii ''EACCES: permission denied''))]"
proof -
  let ?s = "\<lparr>results = [], disk = sample_disk\<rparr>"
  let ?e = "Error (ascii ''EACCES: permission denied'')"
  let ?d1 = "sample_disk(configPath \<mapsto> File sample_config_text)"
  have pa: "JSON_parse (refusing_world Unlink) sample_config_text = Inr sample_config"
    by (simp add: refusing_world_fields sample_parse_values)
  have a: "results (testConfigurationHandling (refusing_world WriteFile) ?s) =
             [configuration_failure ?e]"
    using config_fault_results [of "refusing_world WriteFile" ?s ?e]
    by (simp add: refusing_world_fields refusing_write)
  have b: "results (testConfigurationHandling (refusing_world ReadFile) ?s) =
             [config_written, configuration_failure ?e]"
    using config_fault_results [of "refusing_world ReadFile" ?s ?e] refusing_read(1)
    by (simp add: refusing_world_fields refusing_write)
  have c: "results (testConfigurationHandling (refusing_world Unlink) ?s) =
             [config_written, config_read_result True, configuration_failure ?e]"
    using config_fault_results [of "refusing_world Unlink" ?s ?e]
      refusing_read(2) pa sample_config_key refusing_unlink
    by (simp add: refusing_world_fields refusing_write)
  from a b c show ?thesis by simp
qed

subsection \<open>The file a fault leaves behind\<close>

lemma fs_unlink_removes: "fs_unlink w d p = Inr d' \<Longrightarrow> d' p = None"
  by (auto simp: fs_unlink_def split: option.splits node.splits)

lemma fs_writeFile_creates: "fs_writeFile w d p content = Inr d' \<Longrightarrow> d' p \<noteq> None"
  by (auto simp: fs_writeFile_def split: option.splits node.splits)

text \<open>
  When the delete is reached and succeeds (whether the comparison passed or not), the file
  is gone; when the read, the parse or the property read throws, it is still there.
\<close>

lemma config_file_after:
  fixes key w s
  defines "s' \<equiv> testConfigurationHandlingWith key w s"
  assumes wr: "fs_writeFile w (disk s) configPath
             (JSON_stringify w (JObject [(ascii ''geminiApiKey'', JString key)])) = Inr d1"
  shows "(disk s' configPath = None) =
         (\<exists>content pc v d3. fs_readFile w d1 configPath = Inr content \<and>
            JSON_parse w content = Inr pc \<and>
            get_prop (Some pc) (ascii ''geminiApiKey'') = Inr v \<and>
            fs_unlink w d1 configPath = Inr d3)"
proof -
  have there: "d1 configPath \<noteq> None" by (rule fs_writeFile_creates [OF wr])
  show ?thesis
  proof (cases "fs_readFile w d1 configPath")
    case (Inl e)
    then show ?thesis
      using config_read_fault(2) [OF wr Inl] there by (simp add: s'_def)
  next
    case rd: (Inr content)
    show ?thesis
    proof (cases "JSON_parse w content")
      case (Inl m)
      then show ?thesis
        using config_parse_fault(2) [OF wr rd Inl] there rd by (simp add: s'_def)
    next
      case pa: (Inr pc)
      show ?thesis
      proof (cases "get_prop (Some pc) (ascii ''geminiApiKey'')")
        case (Inl e)
        then show ?thesis
          using config_prop_fault(2) [OF wr rd pa Inl] there rd pa by (simp add: s'_def)
      next
        case gp: (Inr v)
        show ?thesis
        proof (cases "fs_unlink w d1 configPath")
          case (Inl e)
          then show ?thesis
            using config_unlink_fault(2) [OF wr rd pa gp Inl] there rd pa gp
            by (simp add: s'_def)
        next
          case (Inr d3)
          then show ?thesis
            using config_completes(2) [OF wr rd pa gp Inr] fs_unlink_removes [OF Inr] rd pa gp
            by (simp add: s'_def)
        qed
      qed
    qed
  qed
qed

text \<open>
  C3 at an input that breaks it: the write succeeds, the read is refused, and the check
  returns with the synthetic file on disk, although the file was not there before the check
  and nothing would have refused the delete.
\<close>

theorem config_file_left_behind:
  "disk (testConfigurationHandling (refusing_world ReadFile)
           \<lparr>results = [], disk = sample_disk\<rparr>) configPath =
     Some (File sample_config_text) \<and>
   sample_disk configPath = None \<and>
   io_fault (refusing_world ReadFile) Unlink configPath = None"
proof -
  let ?s = "\<lparr>results = [], disk = sample_disk\<rparr>"
  have wr: "fs_writeFile (refusing_world ReadFile) (disk ?s) configPath
              (JSON_stringify (refusing_world ReadFile)
                 (JObject [(ascii ''geminiApiKey'',
                            JString (ascii ''test-api-key-for-integration-testing''))])) =
            Inr (sample_disk(configPath \<mapsto> File sample_config_text))"
    by (simp add: refusing_world_fields refusing_write)
  from config_read_fault(2) [OF wr refusing_read(1)]
  show ?thesis
    by (simp add: testConfigurationHandling_def sample_disk_values refusing_world_fields)
qed

subsection \<open>What a check reads of the world\<close>

text \<open>
  The four checks other than the build read the world only through the faults of the file
  system and the JSON functions: not through the files the run starts with, nor through the
  build subprocess.
\<close>

lemma same_platform_fs:
  assumes "io_fault w' = io_fault w"
  shows "fs_access w' = fs_access w" "fs_readFile w' = fs_readFile w"
    "fs_writeFile w' = fs_writeFile w" "fs_unlink w' = fs_unlink w"
  by (intro ext, simp add: fs_access_def fs_readFile_def fs_writeFile_def fs_unlink_def assms)+

lemma same_platform_probe:
  assumes "io_fault w' = io_fault w"
  shows "probe_files w' files s = probe_files w files s"
  by (induction files arbitrary: s) (simp_all add: same_platform_fs [OF assms])

lemma same_platform_checks:
  assumes "io_fault w' = io_fault w" "JSON_parse w' = JSON_parse w"
    "JSON_stringify w' = JSON_stringify w"
  shows "testProjectStructure w' s = testProjectStructure w s"
    "testDependencies w' s = testDependencies w s"
    "testConfigurationHandling w' s = testConfigurationHandling w s"
    "testToolSchema w' s = testToolSchema w s"
proof -
  note fs = same_platform_fs [OF assms(1)]
  show "testProjectStructure w' s = testProjectStructure w s"
    by (simp add: testProjectStructure_def same_platform_probe [OF assms(1)])
  show "testDependencies w' s = testDependencies w s"
    unfolding testDependencies_def dependencies_try_def check_node_modules_def fs assms(2)
    by (rule refl)
  show "testConfigurationHandling w' s = testConfigurationHandling w s"
    unfolding testConfigurationHandling_def testConfigurationHandlingWith_def
      configuration_try_def fs assms(2,3)
    by (rule refl)
  show "testToolSchema w' s = testToolSchema w s"
    unfolding testToolSchema_def schema_try_def fs
    by (rule refl)
qed

lemma no_npm_checks:
  "testProjectStructure no_npm_world s = testProjectStructure sample_world s"
  "testDependencies no_npm_world s = testDependencies sample_world s"
  by (rule same_platform_checks; simp add: no_npm_world_def)+

text \<open>
  C4 at an input that breaks it: \<^verbatim>\<open>npm\<close> cannot be started. The fault leaves
  \<open>testBuildProcess\<close>: no Result is appended for the build, the configuration and the
  schema checks never run, and the process ends with code 1 on the eleven Results of the
  first two checks.
\<close>

theorem spawn_failure_escapes:
  "runAllTests no_npm_world =
     Crashed (Error (ascii ''spawn npm ENOENT''))
       (testDependencies sample_world
          (testProjectStructure sample_world \<lparr>results = [], disk = sample_disk\<rparr>)) \<and>
   exit_code (runAllTests no_npm_world) = Some 1 \<and>
   result_log (runAllTests no_npm_world) =
     map (\<lambda>file. structure_result file True) requiredFiles @
     map (\<lambda>dep. dependency_result dep True) requiredDeps @
     [node_modules_result True]"
proof -
  let ?s0 = "\<lparr>results = [], disk = sample_disk\<rparr>"
  let ?s1 = "testProjectStructure sample_world ?s0"
  let ?s2 = "testDependencies sample_world ?s1"
  have run: "runAllTests no_npm_world = Crashed (Error (ascii ''spawn npm ENOENT'')) ?s2"
    by (simp add: runAllTests_def Let_def no_npm_checks testBuildProcess_def)
       (simp add: no_npm_world_def sample_world_def)
  have d1: "disk ?s1 = sample_disk" by (simp add: disk_testProjectStructure)
  have r1: "results ?s1 = map (\<lambda>f. structure_result f True) requiredFiles"
    by (subst sample_structure) (auto simp: requiredFiles_def sample_disk_values)
  have r2: "results ?s2 = results ?s1 @ map (\<lambda>dep. dependency_result dep True) requiredDeps @
              [node_modules_result True]"
    by (rule sample_dependencies) (simp_all add: d1 sample_disk_values)
  show ?thesis
    by (simp add: run result_log_def r2 r1)
qed

subsection \<open>Removing a file the later checks do not touch\<close>

lemma fs_frame:
  assumes "p \<noteq> f"
  shows "fs_access w (d(f := None)) p = fs_access w d p"
    and "fs_readFile w (d(f := None)) p = fs_readFile w d p"
    and "fs_writeFile w (d(f := None)) p content =
           (case fs_writeFile w d p content of Inl e \<Rightarrow> Inl e | Inr d' \<Rightarrow> Inr (d'(f := None)))"
    and "fs_unlink w (d(f := None)) p =
           (case fs_unlink w d p of Inl e \<Rightarrow> Inl e | Inr d' \<Rightarrow> Inr (d'(f := None)))"
  using assms
  by (auto simp: fs_access_def fs_readFile_def fs_writeFile_def fs_unlink_def fun_upd_twist
        split: option.splits node.splits)

lemma map_update_one:
  assumes "distinct xs" and "i < length xs" and "\<And>g. g \<noteq> xs ! i \<Longrightarrow> h' g = h g"
  shows "map h' xs = (map h xs)[i := h' (xs ! i)]"
proof (rule nth_equalityI)
  show "length (map h' xs) = length ((map h xs)[i := h' (xs ! i)])" by simp
next
  fix j assume "j < length (map h' xs)"
  then have j: "j < length xs" by simp
  show "map h' xs ! j = (map h xs)[i := h' (xs ! i)] ! j"
  proof (cases "j = i")
    case True
    then show ?thesis using j by simp
  next
    case False
    then have "xs ! j \<noteq> xs ! i"
      using assms(1,2) j by (simp add: nth_eq_iff_index_eq)
    then show ?thesis using False j assms(3) by simp
  qed
qed

lemma distinct_requiredFiles: "distinct requiredFiles"
  by (simp add: requiredFiles_def ascii_eq_iff)

lemma dependencies_frame:
  assumes "fs_readFile w (disk s') (ascii ''package.json'') =
           fs_readFile w (disk s) (ascii ''package.json'')"
    and "fs_access w (disk s') (ascii ''node_modules'') =
         fs_access w (disk s) (ascii ''node_modules'')"
  shows "\<exists>app. results (testDependencies w s) = results s @ app \<and>
               results (testDependencies w s') = results s' @ app"
proof (cases "fs_readFile w (disk s) (ascii ''package.json'')")
  case (Inl e)
  then show ?thesis
    using results_testDependencies_fault [of w s e] results_testDependencies_fault [of w s' e]
      assms(1)
    by simp
next
  case rd: (Inr content)
  then have rd': "fs_readFile w (disk s') (ascii ''package.json'') = Inr content"
    using assms(1) by simp
  show ?thesis
  proof (cases "JSON_parse w content")
    case (Inl m)
    then show ?thesis
      using results_testDependencies_fault [of w s "SyntaxError m"]
        results_testDependencies_fault [of w s' "SyntaxError m"] rd rd'
      by simp
  next
    case pa: (Inr pj)
    show ?thesis
    proof (cases "get_prop (Some pj) (ascii ''dependencies'')")
      case (Inl e)
      then show ?thesis
        using results_testDependencies_fault [of w s e]
          results_testDependencies_fault [of w s' e] rd rd' pa
        by simp
    next
      case gp: (Inr dv)
      show ?thesis
      proof (cases "dv = None \<or> dv = Some JNull")
        case True
        then obtain e where e: "get_prop dv (ascii ''@modelcontextprotocol/sdk'') = Inl e"
          by auto
        show ?thesis
          using results_testDependencies_fault [of w s e]
            results_testDependencies_fault [of w s' e] rd rd' pa gp e
          by simp
      next
        case False
        then obtain v where v: "dv = Some v" "v \<noteq> JNull" by auto
        have g: "get_prop (Some pj) (ascii ''dependencies'') = Inr (Some v)"
          using gp v(1) by simp
        show ?thesis
          using results_testDependencies_defined [OF rd pa g v(2)]
            results_testDependencies_defined [OF rd' pa g v(2)] assms(2)
          by simp
      qed
    qed
  qed
qed

lemma schema_frame:
  assumes "fs_readFile w (disk s') (ascii ''src/index.ts'') =
           fs_readFile w (disk s) (ascii ''src/index.ts'')"
  shows "\<exists>app. results (testToolSchema w s) = results s @ app \<and>
               results (testToolSchema w s') = results s' @ app"
proof (cases "fs_readFile w (disk s) (ascii ''src/index.ts'')")
  case (Inl e)
  then show ?thesis
    using results_testToolSchema_fault [of w s e] results_testToolSchema_fault [of w s' e] assms
    by simp
next
  case (Inr src)
  then show ?thesis
    using results_testToolSchema_read [of w s src] results_testToolSchema_read [of w s' src]
      assms
    by simp
qed

lemma configuration_frame:
  assumes d: "disk s' = (disk s)(f := None)" and ne: "configPath \<noteq> f"
  shows "\<exists>app. results (testConfigurationHandlingWith key w s) = results s @ app \<and>
               results (testConfigurationHandlingWith key w s') = results s' @ app \<and>
               disk (testConfigurationHandlingWith key w s') =
                 (disk (testConfigurationHandlingWith key w s))(f := None)"
proof -
  let ?T = "JSON_stringify w (JObject [(ascii ''geminiApiKey'', JString key)])"
  note fr = fs_frame [OF ne]
  show ?thesis
  proof (cases "fs_writeFile w (disk s) configPath ?T")
    case (Inl e)
    then have "fs_writeFile w (disk s') configPath ?T = Inl e"
      by (simp add: d fr)
    from config_write_fault [OF Inl] config_write_fault [OF this]
    show ?thesis by (simp add: d)
  next
    case wr: (Inr d1)
    then have wr': "fs_writeFile w (disk s') configPath ?T = Inr (d1(f := None))"
      by (simp add: d fr)
    show ?thesis
    proof (cases "fs_readFile w d1 configPath")
      case (Inl e)
      then have "fs_readFile w (d1(f := None)) configPath = Inl e"
        by (simp add: fr)
      from config_read_fault [OF wr Inl] config_read_fault [OF wr' this]
      show ?thesis by simp
    next
      case rd: (Inr content)
      then have rd': "fs_readFile w (d1(f := None)) configPath = Inr content"
        by (simp add: fr)
      show ?thesis
      proof (cases "JSON_parse w content")
        case (Inl m)
        from config_parse_fault [OF wr rd Inl] config_parse_fault [OF wr' rd' Inl]
        show ?thesis by simp
      next
        case pa: (Inr pc)
        show ?thesis
        proof (cases "get_prop (Some pc) (ascii ''geminiApiKey'')")
          case (Inl e)
          from config_prop_fault [OF wr rd pa Inl] config_prop_fault [OF wr' rd' pa Inl]
          show ?thesis by simp
        next
          case gp: (Inr v)
          show ?thesis
          proof (cases "fs_unlink w d1 configPath")
            case (Inl e)
            then have "fs_unlink w (d1(f := None)) configPath = Inl e"
              by (simp add: fr)
            from config_unlink_fault [OF wr rd pa gp Inl]
              config_unlink_fault [OF wr' rd' pa gp this]
            show ?thesis by simp
          next
            case (Inr d3)
            then have "fs_unlink w (d1(f := None)) configPath = Inr (d3(f := None))"
              by (simp add: fr)
            from config_completes [OF wr rd pa gp Inr]
              config_completes [OF wr' rd' pa gp this]
            show ?thesis by simp
          qed
        qed
      qed
    qed
  qed
qed

lemma on_close_frame:
  assumes "fs_access w (disk s') (ascii ''dist'') = fs_access w (disk s) (ascii ''dist'')"
  shows "\<exists>r. results (on_close w code errorOutput s) = results s @ [r] \<and>
             results (on_close w code errorOutput s') = results s' @ [r]"
  using assms
  by (auto simp: on_close_def results_addResult split: option.splits)

lemma disk_on_close: "disk (on_close w code errorOutput s) = disk s"
  by (simp add: on_close_def disk_addResult split: option.splits)

lemma remove_file_fields:
  "io_fault (remove_file f w) = io_fault w"
  "JSON_parse (remove_file f w) = JSON_parse w"
  "JSON_stringify (remove_file f w) = JSON_stringify w"
  "npm_run_build (remove_file f w) = npm_run_build w"
  "disk0 (remove_file f w) = (disk0 w)(f := None)"
  by (simp_all add: remove_file_def)

lemma remove_file_checks:
  "testProjectStructure (remove_file f w) s = testProjectStructure w s"
  "testDependencies (remove_file f w) s = testDependencies w s"
  "testConfigurationHandling (remove_file f w) s = testConfigurationHandling w s"
  "testToolSchema (remove_file f w) s = testToolSchema w s"
  by (rule same_platform_checks; simp add: remove_file_fields)+

lemma remove_file_on_close: "on_close (remove_file f w) = on_close w"
  by (intro ext)
     (simp add: on_close_def same_platform_fs [of "remove_file f w" w, OF remove_file_fields(1)])

lemma remove_file_build:
  "testBuildProcess (remove_file f w) s = testBuildProcess w s"
  unfolding testBuildProcess_def remove_file_fields remove_file_on_close
  by (rule refl)

lemma run_frame:
  fixes w f
  defines "s1 \<equiv> testProjectStructure w \<lparr>results = [], disk = disk0 w\<rparr>"
  defines "s1' \<equiv> testProjectStructure w \<lparr>results = [], disk = (disk0 w)(f := None)\<rparr>"
  assumes ne: "ascii ''package.json'' \<noteq> f" "ascii ''node_modules'' \<noteq> f"
      "ascii ''dist'' \<noteq> f" "configPath \<noteq> f" "ascii ''src/index.ts'' \<noteq> f"
    and build: "npm_run_build w ((disk0 w)(f := None)) =
                  (fst (npm_run_build w (disk0 w)), (snd (npm_run_build w (disk0 w)))(f := None))"
  shows "\<exists>rest. result_log (runAllTests w) = results s1 @ rest \<and>
                result_log (runAllTests (remove_file f w)) = results s1' @ rest"
proof -
  define s2 where "s2 = testDependencies w s1"
  define s2' where "s2' = testDependencies w s1'"
  have d1: "disk s1 = disk0 w" "disk s1' = (disk0 w)(f := None)"
    by (simp_all add: s1_def s1'_def disk_testProjectStructure)
  have d2: "disk s2 = disk0 w" "disk s2' = (disk0 w)(f := None)"
    by (simp_all add: s2_def s2'_def disk_testDependencies d1)
  obtain app2 where app2: "results s2 = results s1 @ app2" "results s2' = results s1' @ app2"
    using dependencies_frame [of w s1' s1] unfolding s2_def s2'_def
    by (auto simp: d1 fs_frame [OF ne(1)] fs_frame [OF ne(2)])
  obtain outcome db where ob: "npm_run_build w (disk0 w) = (outcome, db)"
    by (cases "npm_run_build w (disk0 w)")
  then have ob': "npm_run_build w ((disk0 w)(f := None)) = (outcome, db(f := None))"
    using build by simp
  have run: "runAllTests w =
      (case testBuildProcess w s2 of
         Resolved s3 \<Rightarrow>
           Reported (printResults (results (testToolSchema w (testConfigurationHandling w s3))))
             (testToolSchema w (testConfigurationHandling w s3))
       | Rejected e s3 \<Rightarrow> Fatal e s3 | Uncaught e s3 \<Rightarrow> Crashed e s3
       | Pending s3 \<Rightarrow> Hung s3)"
    unfolding runAllTests_def Let_def s1_def s2_def by (rule refl)
  have run': "runAllTests (remove_file f w) =
      (case testBuildProcess w s2' of
         Resolved s3 \<Rightarrow>
           Reported (printResults (results (testToolSchema w (testConfigurationHandling w s3))))
             (testToolSchema w (testConfigurationHandling w s3))
       | Rejected e s3 \<Rightarrow> Fatal e s3 | Uncaught e s3 \<Rightarrow> Crashed e s3
       | Pending s3 \<Rightarrow> Hung s3)"
    unfolding runAllTests_def Let_def remove_file_checks remove_file_build remove_file_fields
      s1'_def s2'_def
    by (rule refl)
  show ?thesis
  proof (cases outcome)
    case (SpawnThrows e)
    then show ?thesis
      using app2 by (simp add: run run' testBuildProcess_def d2 ob ob' result_log_def)
  next
    case (ErrorEvent e)
    then show ?thesis
      using app2 by (simp add: run run' testBuildProcess_def d2 ob ob' result_log_def)
  next
    case NeverCloses
    then show ?thesis
      using app2 by (simp add: run run' testBuildProcess_def d2 ob ob' result_log_def)
  next
    case (Close code out err)
    define s3 where "s3 = on_close w code (concat err) (s2\<lparr>disk := db\<rparr>)"
    define s3' where "s3' = on_close w code (concat err) (s2'\<lparr>disk := db(f := None)\<rparr>)"
    define s4 where "s4 = testConfigurationHandling w s3"
    define s4' where "s4' = testConfigurationHandling w s3'"
    define s5 where "s5 = testToolSchema w s4"
    define s5' where "s5' = testToolSchema w s4'"
    have b: "testBuildProcess w s2 = Resolved s3" "testBuildProcess w s2' = Resolved s3'"
      by (simp_all add: testBuildProcess_def d2 ob ob' Close s3_def s3'_def)
    have acc: "fs_access w (disk (s2'\<lparr>disk := db(f := None)\<rparr>)) (ascii ''dist'') =
               fs_access w (disk (s2\<lparr>disk := db\<rparr>)) (ascii ''dist'')"
      by (simp add: fs_frame [OF ne(3)])
    obtain r where r: "results s3 = results s2 @ [r]" "results s3' = results s2' @ [r]"
      using on_close_frame [OF acc, of code "concat err"] unfolding s3_def s3'_def
      by auto
    have d3: "disk s3' = (disk s3)(f := None)"
      by (simp add: s3_def s3'_def disk_on_close)
    obtain app4 where app4: "results s4 = results s3 @ app4" "results s4' = results s3' @ app4"
      "disk s4' = (disk s4)(f := None)"
      using configuration_frame [OF d3 ne(4), of "ascii ''test-api-key-for-integration-testing''" w]
      unfolding s4_def s4'_def testConfigurationHandling_def by auto
    have rd: "fs_readFile w (disk s4') (ascii ''src/index.ts'') =
              fs_readFile w (disk s4) (ascii ''src/index.ts'')"
      by (simp add: app4(3) fs_frame [OF ne(5)])
    obtain app5 where app5: "results s5 = results s4 @ app5" "results s5' = results s4' @ app5"
      using schema_frame [OF rd] unfolding s5_def s5'_def by auto
    have "result_log (runAllTests w) = results s1 @ (app2 @ [r] @ app4 @ app5)"
      by (simp add: run b result_log_def s4_def [symmetric] s5_def [symmetric]
            app5 app4 r app2)
    moreover have "result_log (runAllTests (remove_file f w)) =
        results s1' @ (app2 @ [r] @ app4 @ app5)"
      by (simp add: run' b result_log_def s4'_def [symmetric] s5'_def [symmetric]
            app5 app4 r app2)
    ultimately show ?thesis by blast
  qed
qed

text \<open>
  C8, amended. Let \<open>f\<close> be a required file other than \<^verbatim>\<open>package.json\<close> and
  \<^verbatim>\<open>src/index.ts\<close>, present and accessible, and let the build subprocess end the same
  way and leave the same files whether \<open>f\<close> is there or not. Removing \<open>f\<close> changes exactly
  one Result of the log: the \<^verbatim>\<open>Project structure\<close> Result of \<open>f\<close>, at the position of
  \<open>f\<close> in the list of required files, turns from passing to failing. Every other Result,
  of this and of every other check, stays as it was.
\<close>

theorem remove_untouched_required_file:
  assumes "f \<in> set requiredFiles" and "f \<noteq> ascii ''package.json''"
    and "f \<noteq> ascii ''src/index.ts''"
    and "fs_access w (disk0 w) f = None"
    and "npm_run_build w ((disk0 w)(f := None)) =
           (fst (npm_run_build w (disk0 w)), (snd (npm_run_build w (disk0 w)))(f := None))"
  shows "\<exists>i<length requiredFiles.
           requiredFiles ! i = f \<and>
           result_log (runAllTests w) ! i = structure_result f True \<and>
           result_log (runAllTests (remove_file f w)) =
             (result_log (runAllTests w))[i := structure_result f False]"
proof -
  let ?s0 = "\<lparr>results = [], disk = disk0 w\<rparr>"
  let ?s0' = "\<lparr>results = [], disk = (disk0 w)(f := None)\<rparr>"
  let ?h = "\<lambda>file. structure_result file (fs_access w (disk0 w) file = None)"
  let ?h' = "\<lambda>file. structure_result file (fs_access w ((disk0 w)(f := None)) file = None)"
  have ne: "ascii ''package.json'' \<noteq> f" "ascii ''node_modules'' \<noteq> f"
    "ascii ''dist'' \<noteq> f" "configPath \<noteq> f" "ascii ''src/index.ts'' \<noteq> f"
    using assms(1,2,3) by (auto simp: requiredFiles_def configPath_def ascii_eq_iff)
  obtain i where i: "i < length requiredFiles" "requiredFiles ! i = f"
    using assms(1) by (auto simp: in_set_conv_nth)
  have r1: "results (testProjectStructure w ?s0) = map ?h requiredFiles"
    and r1': "results (testProjectStructure w ?s0') = map ?h' requiredFiles"
    by (simp_all add: results_testProjectStructure)
  have gone: "fs_access w ((disk0 w)(f := None)) f \<noteq> None"
    by (rule fs_access_absent) simp
  have "map ?h' requiredFiles = (map ?h requiredFiles)[i := ?h' (requiredFiles ! i)]"
    by (rule map_update_one [OF distinct_requiredFiles i(1)]) (simp add: i(2) fs_frame(1))
  then have flip: "map ?h' requiredFiles = (map ?h requiredFiles)[i := structure_result f False]"
    using gone by (simp add: i(2))
  have was: "map ?h requiredFiles ! i = structure_result f True"
    using i assms(4) by simp
  obtain rest where rest:
    "result_log (runAllTests w) = map ?h requiredFiles @ rest"
    "result_log (runAllTests (remove_file f w)) = map ?h' requiredFiles @ rest"
    using run_frame [OF ne assms(5)] unfolding r1 r1' by blast
  have "result_log (runAllTests w) ! i = structure_result f True"
    using was i(1) by (simp add: rest(1) nth_append)
  moreover have "result_log (runAllTests (remove_file f w)) =
      (result_log (runAllTests w))[i := structure_result f False]"
    using i(1) by (simp add: rest flip list_update_append1)
  ultimately show ?thesis using i by blast
qed

theorem remove_untouched_required_file_witness:
  "sample_log ! 3 = structure_result (ascii ''README.md'') True \<and>
   result_log (runAllTests (remove_file (ascii ''README.md'') sample_world)) =
     sample_log[3 := structure_result (ascii ''README.md'') False]"
proof -
  let ?f = "ascii ''README.md''"
  have a: "?f \<in> set requiredFiles" "?f \<noteq> ascii ''package.json''"
    "?f \<noteq> ascii ''src/index.ts''"
    by (simp_all add: requiredFiles_def ascii_eq_iff)
  have b: "fs_access sample_world (disk0 sample_world) ?f = None"
    by (simp add: fs_access_def sample_world_fields sample_disk_values)
  have c: "npm_run_build sample_world ((disk0 sample_world)(?f := None)) =
             (fst (npm_run_build sample_world (disk0 sample_world)),
              (snd (npm_run_build sample_world (disk0 sample_world)))(?f := None))"
    by (simp add: sample_world_fields sample_world_build sample_disk_values fun_upd_twist
          ascii_eq_iff)
  from remove_untouched_required_file [OF a b c]
  obtain i where i: "i < length requiredFiles" "requiredFiles ! i = ?f"
    "result_log (runAllTests sample_world) ! i = structure_result ?f True"
    "result_log (runAllTests (remove_file ?f sample_world)) =
       (result_log (runAllTests sample_world))[i := structure_result ?f False]"
    by blast
  have "i = 3"
    using i(1,2)
    by (auto simp: requiredFiles_def less_Suc_eq ascii_eq_iff)
  with i(3,4) show ?thesis by (simp add: sample_run(2))
qed

lemma manifest_removed_run:
  "reported (runAllTests (remove_file (ascii ''package.json'') sample_world))"
  "result_log (runAllTests (remove_file (ascii ''package.json'') sample_world)) =
     manifest_removed_log"
proof -
  let ?f = "ascii ''package.json''"
  let ?w = "remove_file ?f sample_world"
  let ?d = "sample_disk(?f := None)"
  define s0 where "s0 = \<lparr>results = [], disk = ?d\<rparr>"
  define s1 where "s1 = testProjectStructure sample_world s0"
  define s2 where "s2 = testDependencies sample_world s1"
  define s3 where "s3 = s2\<lparr>results := results s2 @ [build_failure sample_npm_error]\<rparr>"
  define s4 where "s4 = testConfigurationHandling sample_world s3"
  define s5 where "s5 = testToolSchema sample_world s4"
  have d1: "disk s1 = ?d" by (simp add: s1_def s0_def disk_testProjectStructure)
  have d2: "disk s2 = ?d" by (simp add: s2_def disk_testDependencies d1)
  have d3: "disk s3 = ?d" by (simp add: s3_def d2)
  have ne: "configPath \<noteq> ?f"
    by (simp add: configPath_def ascii_eq_iff)
  have c3: "disk s3 configPath = None"
    by (simp add: d3 sample_disk_values ne)
  have d4: "disk s4 = ?d"
    using sample_configuration(2) [OF c3] by (simp add: s4_def d3)
  have b: "testBuildProcess sample_world s2 = Resolved s3"
    unfolding s3_def by (rule sample_build_no_manifest) (simp add: d2)
  have r1: "results s1 = structure_result ?f False #
              map (\<lambda>file. structure_result file True) (tl requiredFiles)"
    by (simp add: s1_def s0_def results_testProjectStructure requiredFiles_def fs_access_def
          sample_world_fields sample_disk_values ascii_eq_iff)
  have rd: "fs_readFile sample_world (disk s1) ?f =
              Inl (system_error ''ENOENT: no such file or directory'' ''open'' ?f)"
    by (simp add: d1 fs_readFile_def sample_world_fields)
  have r2: "results s2 = results s1 @
      [dependencies_failure (system_error ''ENOENT: no such file or directory'' ''open'' ?f)]"
    unfolding s2_def by (rule results_testDependencies_fault) (simp add: rd)
  have r4: "results s4 = results s3 @ [config_written, config_read_result True, config_cleaned_up]"
    unfolding s4_def by (rule sample_configuration(1) [OF c3])
  have r5: "results s5 = results s4 @ map (\<lambda>el. element_result el True) requiredElements @
              [mime_result sample_source]"
    unfolding s5_def
    by (rule sample_schema) (simp add: d4 sample_disk_values ascii_eq_iff)
  have log: "results s5 = manifest_removed_log"
    by (simp add: r5 r4 s3_def r2 r1 manifest_removed_log_def)
  have run: "runAllTests ?w = Reported (printResults (results s5)) s5"
    unfolding runAllTests_def Let_def remove_file_checks remove_file_build remove_file_fields
      sample_world_fields s0_def [symmetric] s1_def [symmetric] s2_def [symmetric]
    by (simp add: b s4_def s5_def)
  show "reported (runAllTests ?w)" by (simp add: run)
  show "result_log (runAllTests ?w) = manifest_removed_log"
    by (simp add: run result_log_def log)
qed

text \<open>
  C8, as stated, fails for \<^verbatim>\<open>package.json\<close>: without it the probe reports it missing,
  and \<open>testDependencies\<close>, which reads that file, replaces its five Results by the one
  aggregate failure (the build, which needs the file too, fails as well).
\<close>

theorem remove_manifest_counterexample:
  "result_log (runAllTests sample_world) = sample_log \<and>
   result_log (runAllTests (remove_file (ascii ''package.json'') sample_world)) =
     manifest_removed_log \<and>
   node_modules_result True \<in> set sample_log \<and>
   node_modules_result True \<notin> set manifest_removed_log \<and>
   length sample_log = 22 \<and> length manifest_removed_log = 18"
proof -
  have n1: "node_modules_result True \<in> set sample_log"
    by (simp add: sample_log_def)
  have n2: "node_modules_result True \<notin> set manifest_removed_log"
    by (auto simp: manifest_removed_log_def requiredFiles_def requiredElements_def
          structure_result_def node_modules_result_def dependencies_failure_def
          build_failure_def config_written_def config_read_result_def config_cleaned_up_def
          element_result_def mime_result_def ascii_eq_iff ascii_append)
  have l: "length sample_log = 22" "length manifest_removed_log = 18"
    by (simp_all add: sample_log_def manifest_removed_log_def requiredFiles_def
          requiredDeps_def requiredElements_def)
  from n1 n2 l sample_run(2) manifest_removed_run(2) show ?thesis by simp
qed

subsection \<open>Quoting and reading back a string\<close>

lemma nat_less_16_cases:
  "(k::nat) < 16 \<Longrightarrow> k \<in> {0, 1, 2, 3, 4, 5, 6, 7, 8, 9, 10, 11, 12, 13, 14, 15}"
  by (simp add: eval_nat_numeral less_Suc_eq) blast?

lemma word_less_16_cases:
  assumes "(n :: 16 word) < 16"
  shows "n \<in> {0, 1, 2, 3, 4, 5, 6, 7, 8, 9, 10, 11, 12, 13, 14, 15}"
proof -
  have "unat n < 16" using assms by (simp add: word_less_nat_alt)
  then have "unat n \<in> {0, 1, 2, 3, 4, 5, 6, 7, 8, 9, 10, 11, 12, 13, 14, 15}"
    by (rule nat_less_16_cases)
  then have "word_of_nat (unat n) \<in>
      (word_of_nat ` {0, 1, 2, 3, 4, 5, 6, 7, 8, 9, 10, 11, 12, 13, 14, 15} :: 16 word set)"
    by (rule imageI)
  then show ?thesis by simp
qed

lemma nibble_less: "nibble k c < 16"
proof -
  have "drop_bit (4 * k) c AND mask 4 < (2 ^ 4 :: 16 word)"
    by (rule and_mask_less') simp
  then show ?thesis by (simp add: nibble_def take_bit_eq_mask)
qed


lemma hex_value_hex_digit:
  assumes "n < 16"
  shows "hex_value (hex_digit n) = Some n"
  using word_less_16_cases [OF assms]
  by (elim insertE emptyE) (simp_all add: hex_value_def hex_digit_def)

lemma hex_digit_plain:
  assumes "n < 16"
  shows "\<not> is_high_surrogate (hex_digit n)" "\<not> is_low_surrogate (hex_digit n)"
  using word_less_16_cases [OF assms]
  by (auto simp: hex_digit_def is_high_surrogate_def is_low_surrogate_def)


lemma hex4_nibbles: "hex4 (nibble 3 c) (nibble 2 c) (nibble 1 c) (nibble 0 c) = c"
proof (rule bit_word_eqI)
  fix n assume "n < LENGTH(16)"
  then have "n < 16" by simp
  then consider "n < 4" | "4 \<le> n" "n < 8" | "8 \<le> n" "n < 12" | "12 \<le> n" "n < 16"
    by linarith
  then show "bit (hex4 (nibble 3 c) (nibble 2 c) (nibble 1 c) (nibble 0 c)) n = bit c n"
    by cases (auto simp: hex4_def nibble_def bit_simps)
qed



lemma surrogate_large:
  assumes "is_high_surrogate c \<or> is_low_surrogate c"
  shows "0xD800 \<le> c"
  using assms
proof
  assume "is_high_surrogate c"
  then show ?thesis by (simp add: is_high_surrogate_def)
next
  assume "is_low_surrogate c"
  then have "0xDC00 \<le> c" by (simp add: is_low_surrogate_def)
  moreover have "(0xD800 :: 16 word) \<le> 0xDC00" by simp
  ultimately show ?thesis by (rule order_trans [rotated])
qed

lemma large_not_special:
  assumes "(0xD800 :: 16 word) \<le> c"
  shows "\<not> c < 0x20" "c \<noteq> 0x08" "c \<noteq> 0x09" "c \<noteq> 0x0A" "c \<noteq> 0x0C" "c \<noteq> 0x0D"
    "c \<noteq> 0x22" "c \<noteq> 0x5C"
proof -
  show "\<not> c < 0x20"
  proof
    assume "c < 0x20"
    with assms have "(0xD800 :: 16 word) < 0x20" by (rule order.strict_trans1)
    then show False by simp
  qed
  show "c \<noteq> 0x08" "c \<noteq> 0x09" "c \<noteq> 0x0A" "c \<noteq> 0x0C" "c \<noteq> 0x0D" "c \<noteq> 0x22" "c \<noteq> 0x5C"
    using assms by auto
qed

lemma small_not_special:
  assumes "(c :: 16 word) < 0x20"
  shows "c \<noteq> 0x22" "c \<noteq> 0x5C"
  using assms by auto

lemma not_both_surrogates: "is_high_surrogate c \<Longrightarrow> \<not> is_low_surrogate c"
proof
  assume "is_high_surrogate c" "is_low_surrogate c"
  then have "c \<le> 0xDBFF" "0xDC00 \<le> c"
    by (simp_all add: is_high_surrogate_def is_low_surrogate_def)
  then have "(0xDC00 :: 16 word) \<le> 0xDBFF" by (rule order_trans [rotated])
  then show False by simp
qed

lemma quote_body_escapes:
  "quote_body (0x08 # cs) = [0x5C, 0x62] @ quote_body cs"
  "quote_body (0x09 # cs) = [0x5C, 0x74] @ quote_body cs"
  "quote_body (0x0A # cs) = [0x5C, 0x6E] @ quote_body cs"
  "quote_body (0x0C # cs) = [0x5C, 0x66] @ quote_body cs"
  "quote_body (0x0D # cs) = [0x5C, 0x72] @ quote_body cs"
  "quote_body (0x22 # cs) = [0x5C, 0x22] @ quote_body cs"
  "quote_body (0x5C # cs) = [0x5C, 0x5C] @ quote_body cs"
  by simp_all

lemma quote_body_control:
  assumes "c < 0x20" "c \<noteq> 0x08" "c \<noteq> 0x09" "c \<noteq> 0x0A" "c \<noteq> 0x0C" "c \<noteq> 0x0D"
  shows "quote_body (c # cs) = unicode_escape c @ quote_body cs"
  using assms small_not_special [OF assms(1)] by simp

lemma quote_body_pair:
  assumes "is_high_surrogate c" "is_low_surrogate d"
  shows "quote_body (c # d # ds) = c # d # quote_body ds"
  using assms large_not_special [OF surrogate_large [of c]] by simp

lemma quote_body_lone_high:
  assumes "is_high_surrogate c" "cs = [] \<or> \<not> is_low_surrogate (hd cs)"
  shows "quote_body (c # cs) = unicode_escape c @ quote_body cs"
  using assms large_not_special [OF surrogate_large [of c]] by (cases cs) auto

lemma quote_body_low:
  assumes "is_low_surrogate c"
  shows "quote_body (c # cs) = unicode_escape c @ quote_body cs"
  using assms large_not_special [OF surrogate_large [of c]] not_both_surrogates [of c]
  by auto

lemma quote_body_plain:
  assumes "\<not> c < 0x20" "c \<noteq> 0x22" "c \<noteq> 0x5C"
    "\<not> is_high_surrogate c" "\<not> is_low_surrogate c"
  shows "quote_body (c # cs) = c # quote_body cs"
proof -
  have "c \<noteq> 0x08" "c \<noteq> 0x09" "c \<noteq> 0x0A" "c \<noteq> 0x0C" "c \<noteq> 0x0D"
    using assms(1) by auto
  with assms show ?thesis by simp
qed

lemma utf8_roundtrip_plain:
  assumes "\<forall>x\<in>set xs. \<not> is_high_surrogate x \<and> \<not> is_low_surrogate x"
  shows "utf8_roundtrip (xs @ r) = xs @ utf8_roundtrip r"
  using assms by (induction xs) simp_all

lemma ascii_units_plain:
  "\<not> is_high_surrogate 0x5C" "\<not> is_low_surrogate 0x5C"
  "\<not> is_high_surrogate 0x75" "\<not> is_low_surrogate 0x75"
  "\<not> is_high_surrogate 0x62" "\<not> is_low_surrogate 0x62"
  "\<not> is_high_surrogate 0x74" "\<not> is_low_surrogate 0x74"
  "\<not> is_high_surrogate 0x6E" "\<not> is_low_surrogate 0x6E"
  "\<not> is_high_surrogate 0x66" "\<not> is_low_surrogate 0x66"
  "\<not> is_high_surrogate 0x72" "\<not> is_low_surrogate 0x72"
  "\<not> is_high_surrogate 0x22" "\<not> is_low_surrogate 0x22"
  by (simp_all add: is_high_surrogate_def is_low_surrogate_def)

lemma utf8_roundtrip_escape:
  "utf8_roundtrip (unicode_escape c @ r) = unicode_escape c @ utf8_roundtrip r"
  by (rule utf8_roundtrip_plain)
     (simp add: unicode_escape_def hex_digit_plain nibble_less ascii_units_plain)

lemma parse_chars_plain:
  assumes "c \<noteq> 0x22" "c \<noteq> 0x5C" "\<not> c < 0x20"
  shows "parse_chars (c # X) =
           (case parse_chars X of None \<Rightarrow> None | Some (v, r) \<Rightarrow> Some (c # v, r))"
  using assms by simp

lemma parse_chars_escape2:
  assumes "unescape e = Some u" "e \<noteq> 0x75"
  shows "parse_chars (0x5C # e # X) =
           (case parse_chars X of None \<Rightarrow> None | Some (v, r) \<Rightarrow> Some (u # v, r))"
  using assms by simp

lemma parse_chars_unicode:
  "parse_chars (unicode_escape c @ X) =
     (case parse_chars X of None \<Rightarrow> None | Some (v, r) \<Rightarrow> Some (c # v, r))"
  by (simp add: unicode_escape_def hex_value_hex_digit nibble_less
        hex4_nibbles [unfolded One_nat_def] split: option.splits)


lemma parse_chars_quote_body: "parse_chars (quote_body s @ 0x22 # r) = Some (s, r)"
proof (induction "length s" arbitrary: s rule: less_induct)
  case less
  show ?case
  proof (cases s)
    case Nil
    then show ?thesis by simp
  next
    case (Cons c cs)
    have IH: "parse_chars (quote_body cs @ 0x22 # r) = Some (cs, r)"
      using less [of cs] Cons by simp
    consider (esc) "c = 0x08 \<or> c = 0x09 \<or> c = 0x0A \<or> c = 0x0C \<or> c = 0x0D \<or> c = 0x22 \<or> c = 0x5C"
      | (ctl) "c < 0x20" "c \<noteq> 0x08" "c \<noteq> 0x09" "c \<noteq> 0x0A" "c \<noteq> 0x0C" "c \<noteq> 0x0D"
      | (pair) d ds where "is_high_surrogate c" "cs = d # ds" "is_low_surrogate d"
      | (lone) "is_high_surrogate c" "cs = [] \<or> \<not> is_low_surrogate (hd cs)"
      | (low) "is_low_surrogate c"
      | (plain) "\<not> c < 0x20" "c \<noteq> 0x22" "c \<noteq> 0x5C"
          "\<not> is_high_surrogate c" "\<not> is_low_surrogate c"
      by (cases cs) auto
    then show ?thesis
    proof cases
      case esc
      then show ?thesis
        using IH
        by (elim disjE)
           (simp_all add: Cons quote_body_escapes parse_chars_escape2 unescape_def
              del: parse_chars.simps quote_body.simps(2))
    next
      case ctl
      then show ?thesis
        using IH by (simp add: Cons quote_body_control parse_chars_unicode del: quote_body.simps(2))
    next
      case pair
      have IH2: "parse_chars (quote_body ds @ 0x22 # r) = Some (ds, r)"
        using less [of ds] Cons pair(2) by simp
      note c = large_not_special [OF surrogate_large [of c]]
      note d = large_not_special [OF surrogate_large [of d]]
      have "parse_chars (c # d # quote_body ds @ 0x22 # r) = Some (c # d # ds, r)"
        using pair(1,3) c d IH2
        by (simp add: parse_chars_plain del: parse_chars.simps quote_body.simps(2))
      then show ?thesis
        using pair by (simp add: Cons quote_body_pair del: quote_body.simps(2))
    next
      case lone
      then show ?thesis
        using IH by (simp add: Cons quote_body_lone_high parse_chars_unicode del: quote_body.simps(2))
    next
      case low
      then show ?thesis
        using IH by (simp add: Cons quote_body_low parse_chars_unicode del: quote_body.simps(2))
    next
      case plain
      then show ?thesis
        using IH
        by (simp add: Cons quote_body_plain parse_chars_plain del: parse_chars.simps quote_body.simps(2))
    qed
  qed
qed


lemma utf8_roundtrip_quote_body:
  "utf8_roundtrip (quote_body s @ r) = quote_body s @ utf8_roundtrip r"
proof (induction "length s" arbitrary: s rule: less_induct)
  case less
  show ?case
  proof (cases s)
    case Nil
    then show ?thesis by simp
  next
    case (Cons c cs)
    have IH: "utf8_roundtrip (quote_body cs @ r) = quote_body cs @ utf8_roundtrip r"
      using less [of cs] Cons by simp
    consider (esc) "c = 0x08 \<or> c = 0x09 \<or> c = 0x0A \<or> c = 0x0C \<or> c = 0x0D \<or> c = 0x22 \<or> c = 0x5C"
      | (ctl) "c < 0x20" "c \<noteq> 0x08" "c \<noteq> 0x09" "c \<noteq> 0x0A" "c \<noteq> 0x0C" "c \<noteq> 0x0D"
      | (pair) d ds where "is_high_surrogate c" "cs = d # ds" "is_low_surrogate d"
      | (lone) "is_high_surrogate c" "cs = [] \<or> \<not> is_low_surrogate (hd cs)"
      | (low) "is_low_surrogate c"
      | (plain) "\<not> c < 0x20" "c \<noteq> 0x22" "c \<noteq> 0x5C"
          "\<not> is_high_surrogate c" "\<not> is_low_surrogate c"
      by (cases cs) auto
    then show ?thesis
    proof cases
      case esc
      then show ?thesis
        using IH
        by (elim disjE) (simp_all add: Cons quote_body_escapes ascii_units_plain del: quote_body.simps(2))
    next
      case ctl
      then show ?thesis
        using IH by (simp add: Cons quote_body_control utf8_roundtrip_escape del: quote_body.simps(2))
    next
      case pair
      have IH2: "utf8_roundtrip (quote_body ds @ r) = quote_body ds @ utf8_roundtrip r"
        using less [of ds] Cons pair(2) by simp
      show ?thesis
        using pair IH2 by (simp add: Cons quote_body_pair del: quote_body.simps(2))
    next
      case lone
      then show ?thesis
        using IH by (simp add: Cons quote_body_lone_high utf8_roundtrip_escape del: quote_body.simps(2))
    next
      case low
      then show ?thesis
        using IH by (simp add: Cons quote_body_low utf8_roundtrip_escape del: quote_body.simps(2))
    next
      case plain
      then show ?thesis
        using IH by (simp add: Cons quote_body_plain del: quote_body.simps(2))
    qed
  qed
qed

lemma utf8_roundtrip_stringify_member:
  "utf8_roundtrip (stringify_member k v) = stringify_member k v"
proof -
  have 1: "utf8_roundtrip [0x22, 0x0A, 0x7D] = [0x22, 0x0A, 0x7D]"
    by (simp add: is_high_surrogate_def is_low_surrogate_def)
  have 2: "utf8_roundtrip ([0x22, 0x3A, 0x20, 0x22] @ r) =
           [0x22, 0x3A, 0x20, 0x22] @ utf8_roundtrip r" for r
    by (rule utf8_roundtrip_plain) (simp add: is_high_surrogate_def is_low_surrogate_def)
  have 3: "utf8_roundtrip ([0x7B, 0x0A, 0x20, 0x20, 0x22] @ r) =
           [0x7B, 0x0A, 0x20, 0x20, 0x22] @ utf8_roundtrip r" for r
    by (rule utf8_roundtrip_plain) (simp add: is_high_surrogate_def is_low_surrogate_def)
  have "stringify_member k v =
        [0x7B, 0x0A, 0x20, 0x20, 0x22] @ quote_body k @ [0x22, 0x3A, 0x20, 0x22] @
        quote_body v @ [0x22, 0x0A, 0x7D]"
    by (simp add: stringify_member_def QuoteJSONString_def)
  then show ?thesis
    by (simp only: 3 utf8_roundtrip_quote_body 2 1)
qed

lemma parse_member_object_stringify_member:
  "parse_member_object (stringify_member k v) = Some (k, v)"
proof -
  have k: "parse_chars (quote_body k @ 0x22 # r) = Some (k, r)" for r
    by (rule parse_chars_quote_body)
  have v: "parse_chars (quote_body v @ 0x22 # r) = Some (v, r)" for r
    by (rule parse_chars_quote_body)
  show ?thesis
    by (simp add: parse_member_object_def parse_string_def stringify_member_def
          QuoteJSONString_def k v del: parse_chars.simps)
qed

subsection \<open>The round trip of the synthetic configuration\<close>

text \<open>
  C7. For every string \<open>key\<close> in the place of the synthetic credential, quotation marks,
  line feeds, control characters and unpaired surrogates included: the text
  \<^verbatim>\<open>JSON.stringify\<close> produces for the configuration survives the UTF-8 encoding of the
  write and the decoding of the read, and parses back to an object whose field is \<open>key\<close>.
  So, in a world whose JSON functions are the runtime's and whose file system raises no fault
  on the synthetic path, the check appends the write Result, the passing read Result and the
  cleanup Result, and the file is gone.
\<close>

theorem config_roundtrip_any_key:
  assumes "ecmascript_json w"
    and "io_fault w WriteFile configPath = None"
    and "io_fault w ReadFile configPath = None"
    and "io_fault w Unlink configPath = None"
    and "disk s configPath \<noteq> Some Dir"
  shows "parse_member_object
           (utf8_roundtrip (stringify_member (ascii ''geminiApiKey'') key)) =
           Some (ascii ''geminiApiKey'', key) \<and>
         results (testConfigurationHandlingWith key w s) =
           results s @ [config_written, config_read_result True, config_cleaned_up] \<and>
         passed (config_read_result True) \<and>
         disk (testConfigurationHandlingWith key w s) configPath = None"
proof -
  let ?k = "ascii ''geminiApiKey''"
  let ?T = "stringify_member ?k key"
  let ?d1 = "(disk s)(configPath \<mapsto> File ?T)"
  have st: "JSON_stringify w (JObject [(?k, JString key)]) = ?T"
    using assms(1) by (simp add: ecmascript_json_def)
  have rt: "parse_member_object (utf8_roundtrip ?T) = Some (?k, key)"
    by (simp add: utf8_roundtrip_stringify_member parse_member_object_stringify_member)
  have wr: "fs_writeFile w (disk s) configPath
              (JSON_stringify w (JObject [(?k, JString key)])) = Inr ?d1"
    using assms(2,5)
    by (simp add: st fs_writeFile_def utf8_roundtrip_stringify_member
          split: option.splits node.splits)
  have rd: "fs_readFile w ?d1 configPath = Inr ?T"
    using assms(3) by (simp add: fs_readFile_def)
  have pa: "JSON_parse w ?T = Inr (JObject [(?k, JString key)])"
    using assms(1) parse_member_object_stringify_member [of ?k key]
    by (simp add: ecmascript_json_def)
  have gp: "get_prop (Some (JObject [(?k, JString key)])) ?k = Inr (Some (JString key))"
    by simp
  have ul: "fs_unlink w ?d1 configPath = Inr (?d1(configPath := None))"
    using assms(4) by (simp add: fs_unlink_def)
  from config_completes [OF wr rd pa gp ul] rt
  show ?thesis by (simp add: config_read_result_def)
qed

lemma ecma_world_json: "ecmascript_json ecma_world"
  by (simp add: ecmascript_json_def ecma_world_def)

lemma quote_tricky_key:
  "quote_body tricky_key =
     [0x5C, 0x22, 0x5C, 0x6E, 0x5C, 0x5C, 0xD83D, 0xDE00,
      0x5C, 0x75, 0x64, 0x63, 0x30, 0x30, 0x41]"
  by (simp add: tricky_key_def quote_body_escapes quote_body_pair quote_body_low
        quote_body_plain is_high_surrogate_def is_low_surrogate_def unicode_escape_def
        hex_digit_def nibble_def)

theorem config_roundtrip_any_key_witness:
  "results (testConfigurationHandlingWith tricky_key ecma_world
              \<lparr>results = [], disk = sample_disk\<rparr>) =
     [config_written, config_read_result True, config_cleaned_up] \<and>
   parse_member_object (utf8_roundtrip (stringify_member (ascii ''geminiApiKey'') tricky_key)) =
     Some (ascii ''geminiApiKey'', tricky_key) \<and>
   stringify_member (ascii ''geminiApiKey'') tricky_key =
     [0x7B, 0x0A, 0x20, 0x20] @ [0x22] @ ascii ''geminiApiKey'' @ [0x22] @ [0x3A, 0x20] @
     [0x22, 0x5C, 0x22, 0x5C, 0x6E, 0x5C, 0x5C, 0xD83D, 0xDE00,
      0x5C, 0x75, 0x64, 0x63, 0x30, 0x30, 0x41, 0x22] @ [0x0A, 0x7D]"
proof -
  let ?s = "\<lparr>results = [], disk = sample_disk\<rparr>"
  have f: "io_fault ecma_world WriteFile configPath = None"
    "io_fault ecma_world ReadFile configPath = None"
    "io_fault ecma_world Unlink configPath = None"
    by (simp_all add: ecma_world_def sample_world_def)
  have d: "disk ?s configPath \<noteq> Some Dir"
    by (simp add: sample_disk_values)
  have q: "quote_body (ascii ''geminiApiKey'') = ascii ''geminiApiKey''"
    by (simp add: ascii_def quote_body_plain is_high_surrogate_def is_low_surrogate_def)
  from config_roundtrip_any_key [OF ecma_world_json f d, of tricky_key]
  show ?thesis
    by (simp add: stringify_member_def QuoteJSONString_def quote_tricky_key q)
qed

subsection \<open>The exit code\<close>









end
